theory Spec2Isabelle
  imports Complex_Main
begin

section \<open>Objects, ports and connections\<close>

text \<open>
  The classes that occur in the sources. \<open>Extended name parent\<close> is a class made by
  \<^verbatim>\<open>Tone.extend(child, parent)\<close>: its instances have \<^verbatim>\<open>constructor === child\<close> and
  the parent's prototype behind them.
\<close>

datatype cls =
    Tone
  | Tone_SignalBase
  | Tone_Signal
  | Tone_GreaterThan
  | Tone_GreaterThanZero
  | Tone_Subtract
  | Tone_Abs
  | Tone_Multiply
  | Tone_WaveShaper
  | Tone_Follower
  | Tone_StereoXFeedbackEffect
  | Tone_PingPongDelay
  | Extended string cls

text \<open>
  \<^verbatim>\<open>x instanceof Tone.Signal\<close>, by the constructor of \<open>x\<close>:
  \<^verbatim>\<open>Tone.extend(Tone.GreaterThan, Tone.Signal)\<close> (GreaterThan.js, line 37) puts
  GreaterThan below Signal.
\<close>

fun instanceof_Signal :: "cls \<Rightarrow> bool" where
  "instanceof_Signal Tone_Signal = True"
| "instanceof_Signal Tone_GreaterThan = True"
| "instanceof_Signal (Extended name parent) = instanceof_Signal parent"
| "instanceof_Signal other = False"

text \<open>The properties of a unit that hold an AudioParam.\<close>

datatype pname = P_value | P_delayTime | P_frequency | P_Q | P_gain

text \<open>
  A port owner: a unit \<open>u\<close> itself, or the parameter \<open>u.p\<close> of a unit
  (\<^verbatim>\<open>this._leftDelay.delayTime\<close> is \<open>Param leftDelay P_delayTime\<close>,
  \<^verbatim>\<open>node._value\<close> is \<open>Param node P_value\<close>).
\<close>

datatype 'u node = Node 'u | Param 'u pname

text \<open>
  A JavaScript number: a finite value (taken as exact: rounding and the sign of zero are
  left out), positive or negative infinity, or NaN. The operations are those of IEEE 754
  on these: NaN spreads, infinity minus infinity and infinity times zero are NaN, and every
  comparison with NaN is false.
\<close>

datatype jsnum = Num real | PosInf | NegInf | NaN

fun js_add :: "jsnum \<Rightarrow> jsnum \<Rightarrow> jsnum" where
  "js_add (Num a) (Num b) = Num (a + b)"
| "js_add NaN y = NaN"
| "js_add x NaN = NaN"
| "js_add PosInf NegInf = NaN"
| "js_add NegInf PosInf = NaN"
| "js_add PosInf y = PosInf"
| "js_add x PosInf = PosInf"
| "js_add NegInf y = NegInf"
| "js_add x NegInf = NegInf"

fun js_neg :: "jsnum \<Rightarrow> jsnum" where
  "js_neg (Num a) = Num (- a)"
| "js_neg PosInf = NegInf"
| "js_neg NegInf = PosInf"
| "js_neg NaN = NaN"

definition js_sub :: "jsnum \<Rightarrow> jsnum \<Rightarrow> jsnum" where
  "js_sub x y = js_add x (js_neg y)"

text \<open>Infinity times a finite value.\<close>

definition inf_times :: "real \<Rightarrow> jsnum" where
  "inf_times b = (if b = 0 then NaN else if 0 < b then PosInf else NegInf)"

fun js_mul :: "jsnum \<Rightarrow> jsnum \<Rightarrow> jsnum" where
  "js_mul (Num a) (Num b) = Num (a * b)"
| "js_mul NaN y = NaN"
| "js_mul x NaN = NaN"
| "js_mul PosInf PosInf = PosInf"
| "js_mul PosInf NegInf = NegInf"
| "js_mul NegInf PosInf = NegInf"
| "js_mul NegInf NegInf = PosInf"
| "js_mul PosInf (Num b) = inf_times b"
| "js_mul (Num a) PosInf = inf_times a"
| "js_mul NegInf (Num b) = inf_times (- b)"
| "js_mul (Num a) NegInf = inf_times (- a)"

text \<open>\<^verbatim>\<open>Math.abs\<close>, \<^verbatim>\<open>Math.max\<close> of two numbers, and the comparisons \<^verbatim>\<open><=\<close> and \<^verbatim>\<open><\<close>.\<close>

fun js_abs :: "jsnum \<Rightarrow> jsnum" where
  "js_abs (Num a) = Num \<bar>a\<bar>"
| "js_abs PosInf = PosInf"
| "js_abs NegInf = PosInf"
| "js_abs NaN = NaN"

fun Math_max :: "jsnum \<Rightarrow> jsnum \<Rightarrow> jsnum" where
  "Math_max (Num a) (Num b) = Num (max a b)"
| "Math_max NaN y = NaN"
| "Math_max x NaN = NaN"
| "Math_max PosInf y = PosInf"
| "Math_max x PosInf = PosInf"
| "Math_max NegInf y = y"
| "Math_max x NegInf = x"

fun js_le :: "jsnum \<Rightarrow> jsnum \<Rightarrow> bool" where
  "js_le (Num a) (Num b) = (a \<le> b)"
| "js_le NaN y = False"
| "js_le x NaN = False"
| "js_le NegInf y = True"
| "js_le x PosInf = True"
| "js_le PosInf y = False"
| "js_le x NegInf = False"

fun js_lt :: "jsnum \<Rightarrow> jsnum \<Rightarrow> bool" where
  "js_lt (Num a) (Num b) = (a < b)"
| "js_lt NaN y = False"
| "js_lt x NaN = False"
| "js_lt PosInf y = False"
| "js_lt x NegInf = False"
| "js_lt NegInf y = True"
| "js_lt x PosInf = True"

text \<open>The quotient \<^verbatim>\<open>1 / x\<close>: infinity at 0.\<close>

fun js_reciprocal :: "jsnum \<Rightarrow> jsnum" where
  "js_reciprocal (Num a) = (if a = 0 then PosInf else Num (1 / a))"
| "js_reciprocal PosInf = Num 0"
| "js_reciprocal NegInf = Num 0"
| "js_reciprocal NaN = NaN"

text \<open>
  What lives at a node. An AudioParam holds a value and the automation events scheduled on
  it (time, target value). The native nodes and the primitive units are the ones the two
  files create; a \<open>Signal c\<close> is a unit built by the Tone.Signal constructor whose
  \<^verbatim>\<open>constructor\<close> is \<open>c\<close>. A delay line keeps the maximal delay time it was created
  with, if it was given one.
\<close>

datatype obj =
    AudioParam real "(real \<times> real) list"
  | GainNode
  | DelayNode "real option"
  | BiquadFilterNode
  | Signal cls
  | Abs
  | Subtract real
  | Multiply real
  | WaveShaper "jsnum \<Rightarrow> jsnum"
  | GreaterThanZero

fun constructor_of :: "obj \<Rightarrow> cls option" where
  "constructor_of (Signal c) = Some c"
| "constructor_of Abs = Some Tone_Abs"
| "constructor_of (Subtract v) = Some Tone_Subtract"
| "constructor_of (Multiply v) = Some Tone_Multiply"
| "constructor_of (WaveShaper f) = Some Tone_WaveShaper"
| "constructor_of GreaterThanZero = Some Tone_GreaterThanZero"
| "constructor_of other = None"

fun instanceof_AudioParam :: "obj \<Rightarrow> bool" where
  "instanceof_AudioParam (AudioParam v evs) = True"
| "instanceof_AudioParam other = False"

text \<open>A connection \<open>(sourceUnit, outputIndex) -> (destUnit, inputIndex)\<close>.\<close>

type_synonym 'u edge = "'u node \<times> nat \<times> 'u node \<times> nat"

record 'u graph =
  objs :: "'u node \<Rightarrow> obj option"
  edges :: "'u edge list"

datatype error = TypeError | RangeError

text \<open>A call either returns, or throws with the state as it is at the throw.\<close>

datatype 's outcome = Returns 's | Throws error 's

fun and_then :: "'s outcome \<Rightarrow> ('s \<Rightarrow> 's outcome) \<Rightarrow> 's outcome" where
  "and_then (Returns s) f = f s"
| "and_then (Throws e s) f = Throws e s"

subsection \<open>The engine's parameter and node operations\<close>

text \<open>
  \<^verbatim>\<open>AudioParam.cancelScheduledValues(t)\<close> of the Web Audio API removes the scheduled
  changes whose time is at or after \<open>t\<close>.
\<close>

definition cancelScheduledValues :: "real \<Rightarrow> (real \<times> real) list \<Rightarrow> (real \<times> real) list" where
  "cancelScheduledValues t evs = filter (\<lambda>ev. fst ev < t) evs"

text \<open>
  Modelled from the spec: \<^verbatim>\<open>Tone.prototype.connect\<close> is not in the sources. The spec
  has it add the edge \<open>(sourceUnit, outputIndex) -> (destUnit, inputIndex)\<close>, both indices
  0 when omitted, and connecting the same edge twice is idempotent.
\<close>

definition Tone_connect ::
  "'u graph \<Rightarrow> 'u node \<Rightarrow> 'u node \<Rightarrow> nat option \<Rightarrow> nat option \<Rightarrow> 'u graph outcome" where
  "Tone_connect g this unit outputNum inputNum =
     Returns (g\<lparr>edges := List.insert
        (this, case_option 0 id outputNum, unit, case_option 0 id inputNum) (edges g)\<rparr>)"

text \<open>\<^verbatim>\<open>node.disconnect()\<close> of the Web Audio API removes every outgoing connection.\<close>

definition disconnect :: "'u graph \<Rightarrow> 'u node \<Rightarrow> 'u graph" where
  "disconnect g this = g\<lparr>edges := filter (\<lambda>e. fst e \<noteq> this) (edges g)\<rparr>"

subsection \<open>Tone.SignalBase.prototype.connect\<close>

text \<open>\<^verbatim>\<open>node._value\<close>: the parameter of a unit; a parameter itself has none.\<close>

fun field_value :: "'u node \<Rightarrow> 'u node option" where
  "field_value (Node u) = Some (Param u P_value)"
| "field_value (Param u p) = None"

text \<open>
  GreaterThan.js, lines 78 to 91. The first branch reads \<^verbatim>\<open>node._value\<close> and calls
  its methods, which throws a TypeError when there is no AudioParam there.
\<close>

definition SignalBase_connect ::
  "'u graph \<Rightarrow> 'u node \<Rightarrow> 'u node \<Rightarrow> nat option \<Rightarrow> nat option \<Rightarrow> 'u graph outcome" where
  "SignalBase_connect g this node outputNumber inputNumber =
     (case objs g node of
        None \<Rightarrow> Throws TypeError g
      | Some ob \<Rightarrow>
          if constructor_of ob = Some Tone_Signal then
            (case field_value node of
               None \<Rightarrow> Throws TypeError g
             | Some p \<Rightarrow>
                 (case objs g p of
                    Some (AudioParam v evs) \<Rightarrow>
                      Tone_connect
                        (g\<lparr>objs := (objs g)(p \<mapsto> AudioParam 0 (cancelScheduledValues 0 evs))\<rparr>)
                        this node outputNumber inputNumber
                  | _ \<Rightarrow> Throws TypeError g))
          else
            (case ob of
               AudioParam v evs \<Rightarrow>
                 Tone_connect
                   (g\<lparr>objs := (objs g)(node \<mapsto> AudioParam 0 (cancelScheduledValues 0 evs))\<rparr>)
                   this node outputNumber inputNumber
             | _ \<Rightarrow> Tone_connect g this node outputNumber inputNumber))"

text \<open>The edge a call of connect asks for.\<close>

definition the_edge :: "'u node \<Rightarrow> 'u node \<Rightarrow> nat option \<Rightarrow> nat option \<Rightarrow> 'u edge" where
  "the_edge this node outputNumber inputNumber =
     (this, case_option 0 id outputNumber, node, case_option 0 id inputNumber)"

text \<open>
  A port with no parameter semantics: a native audio node. The primitive units of the
  library and the parameters are not.
\<close>

fun audio_rate_port :: "obj \<Rightarrow> bool" where
  "audio_rate_port GainNode = True"
| "audio_rate_port (DelayNode m) = True"
| "audio_rate_port BiquadFilterNode = True"
| "audio_rate_port other = False"

subsection \<open>Which connect a unit has, chain and fan\<close>

text \<open>
  Modelled from the spec: the classes of the primitive units are not in the sources.
  Tone.SignalBase is the ``base class for all Signals'' (GreaterThan.js, line 58), and the
  spec has every unit that feeds a parameter offer the zero-reset connect: the signal
  units connect through \<open>SignalBase_connect\<close>, a native node through the plain connect.
\<close>

fun has_SignalBase_connect :: "obj \<Rightarrow> bool" where
  "has_SignalBase_connect (Signal c) = True"
| "has_SignalBase_connect Abs = True"
| "has_SignalBase_connect (Subtract v) = True"
| "has_SignalBase_connect (Multiply v) = True"
| "has_SignalBase_connect (WaveShaper f) = True"
| "has_SignalBase_connect GreaterThanZero = True"
| "has_SignalBase_connect other = False"

definition unit_connect ::
  "'u graph \<Rightarrow> 'u node \<Rightarrow> 'u node \<Rightarrow> nat option \<Rightarrow> nat option \<Rightarrow> 'u graph outcome" where
  "unit_connect g this node outputNumber inputNumber =
     (case objs g this of
        None \<Rightarrow> Throws TypeError g
      | Some ob \<Rightarrow>
          if has_SignalBase_connect ob
          then SignalBase_connect g this node outputNumber inputNumber
          else Tone_connect g this node outputNumber inputNumber)"

text \<open>
  Modelled from the spec: \<^verbatim>\<open>Tone.prototype.chain\<close> and \<^verbatim>\<open>Tone.prototype.fan\<close> are not
  in the sources. \<open>chain\<close> wires this unit and the given units in series, \<open>fan\<close> wires
  this unit to each of the given units (``fans out identically''), every edge through the
  connect of the unit it leaves.
\<close>

fun chain :: "'u graph \<Rightarrow> 'u node \<Rightarrow> 'u node list \<Rightarrow> 'u graph outcome" where
  "chain g this [] = Returns g"
| "chain g this (unit # units) =
     and_then (unit_connect g this unit None None) (\<lambda>g'. chain g' unit units)"

fun fan :: "'u graph \<Rightarrow> 'u node \<Rightarrow> 'u node list \<Rightarrow> 'u graph outcome" where
  "fan g this [] = Returns g"
| "fan g this (unit # units) =
     and_then (unit_connect g this unit None None) (\<lambda>g'. fan g' this units)"

subsection \<open>Creating nodes\<close>

text \<open>
  The factory methods of the audio context and the constructors of the primitive units
  put a new object at a node that nothing is connected to yet. A GainNode has gain 1, a
  DelayNode delay time 0, a BiquadFilterNode frequency 350 and Q 1 (the defaults of the
  Web Audio API). \<^verbatim>\<open>createDelay(maxDelayTime)\<close> makes a delay line that keeps the
  maximal delay time it is given; \<^verbatim>\<open>createDelay()\<close>, with no argument, is given none:
  the maximum the audio context then chooses is not in the sources, and such a line is
  taken to be long enough for its delay time.
\<close>

definition createGain :: "'u graph \<Rightarrow> 'u \<Rightarrow> 'u graph" where
  "createGain g u = g\<lparr>objs := (objs g)(Node u \<mapsto> GainNode, Param u P_gain \<mapsto> AudioParam 1 [])\<rparr>"

definition createDelay :: "'u graph \<Rightarrow> 'u \<Rightarrow> real option \<Rightarrow> 'u graph" where
  "createDelay g u maxDelayTime =
     g\<lparr>objs := (objs g)(Node u \<mapsto> DelayNode maxDelayTime,
                         Param u P_delayTime \<mapsto> AudioParam 0 [])\<rparr>"

definition createBiquadFilter :: "'u graph \<Rightarrow> 'u \<Rightarrow> 'u graph" where
  "createBiquadFilter g u =
     g\<lparr>objs := (objs g)(Node u \<mapsto> BiquadFilterNode,
        Param u P_frequency \<mapsto> AudioParam 350 [], Param u P_Q \<mapsto> AudioParam 1 [])\<rparr>"

text \<open>
  Modelled from the spec: the constructor of Tone.Signal is not in the sources. The spec
  has a control signal drive parameters with its value, and connect reads the signal's
  parameter as \<^verbatim>\<open>node._value\<close>: \<^verbatim>\<open>new Tone.Signal(value)\<close> is a unit whose
  constructor is Tone.Signal and whose \<^verbatim>\<open>_value\<close> parameter holds the value.
\<close>

definition new_Signal :: "'u graph \<Rightarrow> 'u \<Rightarrow> real \<Rightarrow> 'u graph" where
  "new_Signal g u v =
     g\<lparr>objs := (objs g)(Node u \<mapsto> Signal Tone_Signal, Param u P_value \<mapsto> AudioParam v [])\<rparr>"

text \<open>
  Modelled from the spec: the constructors of Tone.Abs, Tone.Subtract, Tone.Multiply,
  Tone.WaveShaper and Tone.GreaterThanZero are not in the sources. The spec takes these
  units as primitive blocks: \<^verbatim>\<open>new Tone.Abs()\<close>, \<^verbatim>\<open>new Tone.Subtract(v)\<close> and the
  others put one such block at a node.
\<close>

definition new_unit :: "'u graph \<Rightarrow> 'u \<Rightarrow> obj \<Rightarrow> 'u graph" where
  "new_unit g u ob = g\<lparr>objs := (objs g)(Node u \<mapsto> ob)\<rparr>"

text \<open>The assignment \<^verbatim>\<open>param.value = v\<close>.\<close>

definition set_value :: "'u graph \<Rightarrow> 'u node \<Rightarrow> real \<Rightarrow> 'u graph outcome" where
  "set_value g p v =
     (case objs g p of
        Some (AudioParam old evs) \<Rightarrow> Returns (g\<lparr>objs := (objs g)(p \<mapsto> AudioParam v evs)\<rparr>)
      | _ \<Rightarrow> Throws TypeError g)"

section \<open>What a wired graph computes\<close>

text \<open>
  Modelled from the spec: the primitive units and the render engine are not in the
  sources. The spec's table of primitives gives what each computes: the absolute-value
  unit \<open>|x|\<close>, the subtractor \<open>in0 - in1\<close> (a static value standing in for \<open>in1\<close>),
  the multiplier input times gain, the wave shaper its mapping function, GreaterThanZero
  1 above 0 and 0 otherwise, the delay line its input one delay time ago (silence before
  that), a parameter (and a signal, through its parameter) its held value plus what is
  connected to it, and every input sums the signals connected to it. The delay line is
  bounded: with a delay time above the maximum it was created with it signals a
  RangeError, which nothing downstream swallows. The low-pass filter is a black box of
  the engine: its output is the signal \<open>filt\<close> of the environment. \<open>ext\<close> is the signal
  that arrives from outside the composite at an input port. A parameter is read at its
  held value; changes scheduled on it play no part here.
\<close>

record 'u env =
  ext :: "'u node \<Rightarrow> nat \<Rightarrow> real \<Rightarrow> real"
  filt :: "'u node \<Rightarrow> real \<Rightarrow> real"

text \<open>
  What is read at an output at one time: a number, an error, or nothing (\<open>None\<close>) when
  the evaluation below has used up its depth. \<open>sample x\<close> is the finite number \<open>x\<close>.
\<close>

type_synonym reading = "(error + jsnum) option"

abbreviation sample :: "real \<Rightarrow> reading" where
  "sample x \<equiv> Some (Inr (Num x))"

fun then_reading :: "reading \<Rightarrow> (jsnum \<Rightarrow> reading) \<Rightarrow> reading" where
  "then_reading None f = None"
| "then_reading (Some (Inl e)) f = Some (Inl e)"
| "then_reading (Some (Inr x)) f = f x"

definition map_reading :: "(jsnum \<Rightarrow> jsnum) \<Rightarrow> reading \<Rightarrow> reading" where
  "map_reading f r = then_reading r (\<lambda>x. Some (Inr (f x)))"

fun sum_opt :: "reading list \<Rightarrow> reading" where
  "sum_opt [] = sample 0"
| "sum_opt (r # rs) = then_reading r (\<lambda>x. map_reading (js_add x) (sum_opt rs))"

text \<open>
  Modelled from the spec: the delay line is not in the sources; the spec has it bounded
  and expects it to signal a range error for a delay time above its maximum. The delay
  that a line with maximum \<open>m\<close> applies when its delay time is \<open>d\<close>: none when \<open>d\<close>
  exceeds the maximum or is not finite.
\<close>

fun delay_of :: "real option \<Rightarrow> jsnum \<Rightarrow> real option" where
  "delay_of None (Num d) = Some d"
| "delay_of (Some m) (Num d) = (if d \<le> m then Some d else None)"
| "delay_of m d = None"

text \<open>The sources wired to input \<open>p\<close> of node \<open>n\<close>.\<close>

definition sources :: "'u graph \<Rightarrow> 'u node \<Rightarrow> nat \<Rightarrow> 'u node list" where
  "sources g n p = map fst (filter (\<lambda>e. fst (snd (snd e)) = n \<and> snd (snd (snd e)) = p) (edges g))"

fun param_of :: "'u node \<Rightarrow> pname \<Rightarrow> 'u node" where
  "param_of (Node u) p = Param u p"
| "param_of (Param u q) p = Param u p"

text \<open>
  The output of node \<open>n\<close> at time \<open>t\<close>. A graph may hold a cycle with no delay in it, on
  which the recursion would not end: \<open>k\<close> bounds the depth, and \<open>None\<close> is the answer when
  it is used up.
\<close>

fun out :: "nat \<Rightarrow> 'u graph \<Rightarrow> 'u env \<Rightarrow> 'u node \<Rightarrow> real \<Rightarrow> reading" where
  "out 0 g E n t = None"
| "out (Suc k) g E n t =
     (let inp = (\<lambda>p t'. map_reading (js_add (Num (ext E n p t')))
                   (sum_opt (map (\<lambda>m. out k g E m t') (sources g n p))))
      in case objs g n of
           None \<Rightarrow> None
         | Some (AudioParam v evs) \<Rightarrow> map_reading (js_add (Num v)) (inp 0 t)
         | Some GainNode \<Rightarrow>
             then_reading (out k g E (param_of n P_gain) t)
               (\<lambda>a. map_reading (js_mul a) (inp 0 t))
         | Some (DelayNode m) \<Rightarrow>
             then_reading (out k g E (param_of n P_delayTime) t)
               (\<lambda>d. case delay_of m d of
                      None \<Rightarrow> Some (Inl RangeError)
                    | Some r \<Rightarrow> if t < r then sample 0 else inp 0 (t - r))
         | Some BiquadFilterNode \<Rightarrow> sample (filt E n t)
         | Some (Signal c) \<Rightarrow>
             then_reading (out k g E (param_of n P_value) t)
               (\<lambda>v. map_reading (js_add v) (inp 0 t))
         | Some Abs \<Rightarrow> map_reading js_abs (inp 0 t)
         | Some (Subtract v) \<Rightarrow>
             then_reading (inp 0 t)
               (\<lambda>a. map_reading (\<lambda>b. js_sub a (js_add (Num v) b)) (inp 1 t))
         | Some (Multiply v) \<Rightarrow> map_reading (js_mul (Num v)) (inp 0 t)
         | Some (WaveShaper f) \<Rightarrow> map_reading f (inp 0 t)
         | Some GreaterThanZero \<Rightarrow>
             map_reading (\<lambda>x. if js_lt (Num 0) x then Num 1 else Num 0) (inp 0 t))"

section \<open>Composites\<close>

text \<open>
  A composite object lives in a graph. \<open>calls\<close> lists the disconnect and dispose calls
  made on its internal units, in order. \<open>base\<close> is the part of the object that the
  constructor and the dispose of its base class manage; those are not in the sources and
  are parameters here.
\<close>

datatype call = Disconnect | Dispose

record ('u, 'b) composite =
  graph :: "'u graph"
  calls :: "('u \<times> call) list"
  base :: 'b

text \<open>A sequence of statements: the first throw ends it.\<close>

fun seq :: "('s \<Rightarrow> 's outcome) list \<Rightarrow> 's \<Rightarrow> 's outcome" where
  "seq [] s = Returns s"
| "seq (f # fs) s = and_then (f s) (seq fs)"

definition on_graph ::
  "('u graph \<Rightarrow> 'u graph outcome) \<Rightarrow> ('u, 'b, 'z) composite_scheme \<Rightarrow>
     ('u, 'b, 'z) composite_scheme outcome" where
  "on_graph f s =
     (case f (graph s) of
        Returns g \<Rightarrow> Returns (s\<lparr>graph := g\<rparr>)
      | Throws e g \<Rightarrow> Throws e (s\<lparr>graph := g\<rparr>))"

text \<open>The call of the base class's dispose on \<^verbatim>\<open>this\<close>.\<close>

definition base_call ::
  "('b \<Rightarrow> 'b outcome) \<Rightarrow> ('u, 'b, 'z) composite_scheme \<Rightarrow> ('u, 'b, 'z) composite_scheme outcome" where
  "base_call f s =
     (case f (base s) of
        Returns b \<Rightarrow> Returns (s\<lparr>base := b\<rparr>)
      | Throws e b \<Rightarrow> Throws e (s\<lparr>base := b\<rparr>))"

text \<open>
  Modelled from the spec: the dispose methods of the primitive units (Tone.Abs,
  Tone.Multiply, Tone.Subtract, Tone.GreaterThanZero, Tone.Signal) and
  \<^verbatim>\<open>Tone.prototype.disconnect\<close> are not in the sources. The spec has disposal disconnect
  the internal connections and release the primitives: a call
  \<^verbatim>\<open>this.field.disconnect()\<close> or \<^verbatim>\<open>this.field.dispose()\<close> takes the unit's outgoing
  connections away and is recorded. On a field that is \<^verbatim>\<open>null\<close> the property access
  throws a TypeError, as it does in JavaScript.
\<close>

definition field_call ::
  "call \<Rightarrow> 'u option \<Rightarrow> ('u, 'b, 'z) composite_scheme \<Rightarrow> ('u, 'b, 'z) composite_scheme outcome" where
  "field_call c field s =
     (case field of
        None \<Rightarrow> Throws TypeError s
      | Some u \<Rightarrow>
          Returns (s\<lparr>graph := disconnect (graph s) (Node u), calls := calls s @ [(u, c)]\<rparr>))"

text \<open>
  Modelled from the spec: \<^verbatim>\<open>Tone.WaveShaper.prototype.setMap\<close> is not in the sources.
  The spec has the wave-shaping lookup hold a ``rebuildable sample-to-sample mapping
  function'': after \<^verbatim>\<open>this.field.setMap(f)\<close> the shaper's mapping is \<open>f\<close>.
\<close>

definition setMap ::
  "'u option \<Rightarrow> (jsnum \<Rightarrow> jsnum) \<Rightarrow> ('u, 'b, 'z) composite_scheme \<Rightarrow>
     ('u, 'b, 'z) composite_scheme outcome" where
  "setMap field f s =
     (case field of
        None \<Rightarrow> Throws TypeError s
      | Some u \<Rightarrow>
          (case objs (graph s) (Node u) of
             Some (WaveShaper old) \<Rightarrow>
               Returns (s\<lparr>graph := (graph s)\<lparr>objs := (objs (graph s))(Node u \<mapsto> WaveShaper f)\<rparr>\<rparr>)
           | _ \<Rightarrow> Throws TypeError s))"

text \<open>
  The members of Tone that Follower.js reads and that are not in the sources:
  \<^verbatim>\<open>this.bufferTime\<close>, \<^verbatim>\<open>this.toSeconds\<close> and \<^verbatim>\<open>this.secondsToFrequency\<close>.
  \<open>'t\<close> is the type of time values; the two conversions give JavaScript numbers, and
  \<^verbatim>\<open>bufferTime\<close> is a finite one.
\<close>

record 't tone =
  bufferTime :: real
  toSeconds :: "'t \<Rightarrow> jsnum"
  secondsToFrequency :: "jsnum \<Rightarrow> jsnum"

subsection \<open>Tone.Follower\<close>

datatype funit =
  F_input | F_output | F_abs | F_filter | F_frequencyValues | F_sub | F_delay | F_mult

text \<open>
  The fields \<^verbatim>\<open>_abs\<close>, \<^verbatim>\<open>_filter\<close>, \<^verbatim>\<open>_frequencyValues\<close>, \<^verbatim>\<open>_sub\<close>,
  \<^verbatim>\<open>_delay\<close>, \<^verbatim>\<open>_mult\<close>, \<^verbatim>\<open>_attack\<close>, \<^verbatim>\<open>_release\<close> and \<^verbatim>\<open>_curve\<close>;
  \<open>None\<close> is \<^verbatim>\<open>null\<close>.
\<close>

record ('t, 'b) Follower = "(funit, 'b) composite" +
  fo_abs :: "funit option"
  fo_filter :: "funit option"
  fo_frequencyValues :: "funit option"
  fo_sub :: "funit option"
  fo_delay :: "funit option"
  fo_mult :: "funit option"
  fo_attack :: 't
  fo_release :: 't
  fo_curve :: "funit option"

text \<open>Follower.js, lines 105 to 118.\<close>

definition Follower_setAttackRelease ::
  "'t tone \<Rightarrow> 't \<Rightarrow> 't \<Rightarrow> ('t, 'b) Follower \<Rightarrow> ('t, 'b) Follower outcome" where
  "Follower_setAttackRelease T attack release s =
     (let minTime = Num (bufferTime T);
          attack1 = secondsToFrequency T (toSeconds T attack);
          release1 = secondsToFrequency T (toSeconds T release);
          attack2 = Math_max attack1 minTime;
          release2 = Math_max release1 minTime
      in setMap (fo_frequencyValues s)
           (\<lambda>val. if js_le val (Num 0) then attack2 else release2) s)"

text \<open>
  The constructor, Follower.js, lines 18 to 86. \<^verbatim>\<open>Tone.call(this)\<close> gives the object
  its input and output GainNodes; \<open>attack\<close> and \<open>release\<close> are the options after
  \<^verbatim>\<open>optionsObject\<close> has filled in the defaults. A wave shaper made with no mapping has
  an all-zero table. The delay line is created with no maximal delay time (line 55). The
  filter's type (line 35) belongs to the black box and is not kept,
  and line 156, which lends the follower the connect of Tone.Signal, wires nothing.
\<close>

definition Follower_new :: "'t tone \<Rightarrow> 'b \<Rightarrow> 't \<Rightarrow> 't \<Rightarrow> ('t, 'b) Follower outcome" where
  "Follower_new T b attack release =
     seq
       [\<lambda>s. Returns (s\<lparr>graph := createGain (createGain (graph s) F_input) F_output\<rparr>),
        \<lambda>s. Returns (s\<lparr>graph := new_unit (graph s) F_abs Abs, fo_abs := Some F_abs\<rparr>),
        \<lambda>s. Returns (s\<lparr>graph := createBiquadFilter (graph s) F_filter, fo_filter := Some F_filter\<rparr>),
        on_graph (\<lambda>g. set_value g (Param F_filter P_frequency) 0),
        on_graph (\<lambda>g. set_value g (Param F_filter P_Q) (- 100)),
        \<lambda>s. Returns (s\<lparr>graph := new_unit (graph s) F_frequencyValues (WaveShaper (\<lambda>val. Num 0)),
                        fo_frequencyValues := Some F_frequencyValues\<rparr>),
        \<lambda>s. Returns (s\<lparr>graph := new_unit (graph s) F_sub (Subtract 0), fo_sub := Some F_sub\<rparr>),
        \<lambda>s. Returns (s\<lparr>graph := createDelay (graph s) F_delay None, fo_delay := Some F_delay\<rparr>),
        on_graph (\<lambda>g. set_value g (Param F_delay P_delayTime) (bufferTime T)),
        \<lambda>s. Returns (s\<lparr>graph := new_unit (graph s) F_mult (Multiply 10000), fo_mult := Some F_mult\<rparr>),
        \<lambda>s. Returns (s\<lparr>fo_attack := attack\<rparr>),
        \<lambda>s. Returns (s\<lparr>fo_release := release\<rparr>),
        on_graph (\<lambda>g. chain g (Node F_input) [Node F_abs, Node F_filter, Node F_output]),
        on_graph (\<lambda>g. unit_connect g (Node F_abs) (Node F_sub) (Some 0) (Some 1)),
        on_graph (\<lambda>g. chain g (Node F_filter) [Node F_delay, Node F_sub]),
        on_graph (\<lambda>g. chain g (Node F_sub)
           [Node F_mult, Node F_frequencyValues, Param F_filter P_frequency]),
        \<lambda>s. Follower_setAttackRelease T (fo_attack s) (fo_release s) s]
       \<lparr>graph = \<lparr>objs = Map.empty, edges = []\<rparr>, calls = [], base = b,
        fo_abs = None, fo_filter = None, fo_frequencyValues = None, fo_sub = None,
        fo_delay = None, fo_mult = None, fo_attack = attack, fo_release = release,
        fo_curve = None\<rparr>"

text \<open>The setters of the properties \<^verbatim>\<open>attack\<close> and \<^verbatim>\<open>release\<close>, lines 126 to 150.\<close>

definition Follower_set_attack ::
  "'t tone \<Rightarrow> 't \<Rightarrow> ('t, 'b) Follower \<Rightarrow> ('t, 'b) Follower outcome" where
  "Follower_set_attack T attack s =
     seq
       [\<lambda>s. Returns (s\<lparr>fo_attack := attack\<rparr>),
        \<lambda>s. Follower_setAttackRelease T (fo_attack s) (fo_release s) s] s"

definition Follower_set_release ::
  "'t tone \<Rightarrow> 't \<Rightarrow> ('t, 'b) Follower \<Rightarrow> ('t, 'b) Follower outcome" where
  "Follower_set_release T release s =
     seq
       [\<lambda>s. Returns (s\<lparr>fo_release := release\<rparr>),
        \<lambda>s. Follower_setAttackRelease T (fo_attack s) (fo_release s) s] s"

text \<open>Follower.js, lines 162 to 178; \<open>Tone_dispose\<close> is \<^verbatim>\<open>Tone.prototype.dispose\<close>.\<close>

definition Follower_dispose ::
  "('b \<Rightarrow> 'b outcome) \<Rightarrow> ('t, 'b) Follower \<Rightarrow> ('t, 'b) Follower outcome" where
  "Follower_dispose Tone_dispose =
     seq
       [base_call Tone_dispose,
        \<lambda>s. field_call Disconnect (fo_filter s) s,
        \<lambda>s. Returns (s\<lparr>fo_filter := None\<rparr>),
        \<lambda>s. field_call Disconnect (fo_frequencyValues s) s,
        \<lambda>s. Returns (s\<lparr>fo_frequencyValues := None\<rparr>),
        \<lambda>s. field_call Disconnect (fo_delay s) s,
        \<lambda>s. Returns (s\<lparr>fo_delay := None\<rparr>),
        \<lambda>s. field_call Disconnect (fo_sub s) s,
        \<lambda>s. Returns (s\<lparr>fo_sub := None\<rparr>),
        \<lambda>s. field_call Dispose (fo_abs s) s,
        \<lambda>s. Returns (s\<lparr>fo_abs := None\<rparr>),
        \<lambda>s. field_call Dispose (fo_mult s) s,
        \<lambda>s. Returns (s\<lparr>fo_mult := None\<rparr>),
        \<lambda>s. Returns (s\<lparr>fo_curve := None\<rparr>)]"

subsection \<open>Tone.GreaterThan\<close>

datatype gunit = G_value | G_gtz

text \<open>
  The fields \<^verbatim>\<open>_value\<close> and \<^verbatim>\<open>_gtz\<close>, and the ports \<^verbatim>\<open>input\<close> (an array of
  two) and \<^verbatim>\<open>output\<close>. A port is a node and the index of one of its inputs.
\<close>

record 'b GreaterThan = "(gunit, 'b) composite" +
  gt_value :: "gunit option"
  gt_gtz :: "gunit option"
  gt_input :: "(gunit node \<times> nat) option list"
  gt_output :: "gunit node option"

text \<open>
  The constructor, GreaterThan.js, lines 14 to 35. \<^verbatim>\<open>Tone.call(this, 2, 0)\<close> makes
  \<^verbatim>\<open>input\<close> an array of two and no output; \<^verbatim>\<open>this._value.input[1]\<close> is the second
  input of the subtractor.
\<close>

definition GreaterThan_new :: "'b \<Rightarrow> real \<Rightarrow> 'b GreaterThan outcome" where
  "GreaterThan_new b v =
     seq
       [\<lambda>s. Returns (s\<lparr>graph := new_unit (graph s) G_value (Subtract v),
                        gt_value := Some G_value,
                        gt_input := (gt_input s)[0 := Some (Node G_value, 0)]\<rparr>),
        \<lambda>s. Returns (s\<lparr>gt_input := (gt_input s)[1 := Some (Node G_value, 1)]\<rparr>),
        \<lambda>s. Returns (s\<lparr>graph := new_unit (graph s) G_gtz GreaterThanZero,
                        gt_gtz := Some G_gtz, gt_output := Some (Node G_gtz)\<rparr>),
        on_graph (\<lambda>g. unit_connect g (Node G_value) (Node G_gtz) None None)]
       \<lparr>graph = \<lparr>objs = Map.empty, edges = []\<rparr>, calls = [], base = b,
        gt_value = None, gt_gtz = None, gt_input = [None, None], gt_output = None\<rparr>"

text \<open>GreaterThan.js, lines 43 to 50.\<close>

definition GreaterThan_dispose ::
  "('b \<Rightarrow> 'b outcome) \<Rightarrow> 'b GreaterThan \<Rightarrow> 'b GreaterThan outcome" where
  "GreaterThan_dispose Tone_dispose =
     seq
       [base_call Tone_dispose,
        \<lambda>s. field_call Dispose (gt_value s) s,
        \<lambda>s. Returns (s\<lparr>gt_value := None\<rparr>),
        \<lambda>s. field_call Dispose (gt_gtz s) s,
        \<lambda>s. Returns (s\<lparr>gt_gtz := None\<rparr>)]"

text \<open>
  What the comparator puts out at time \<open>t\<close> when the signal \<open>a\<close> arrives at its first
  input and nothing is wired to the second.
\<close>

definition GreaterThan_output :: "nat \<Rightarrow> 'b GreaterThan \<Rightarrow> (real \<Rightarrow> real) \<Rightarrow> real \<Rightarrow> reading" where
  "GreaterThan_output k s a t =
     (case (gt_input s, gt_output s) of
        (Some port # rest, Some n) \<Rightarrow>
          out k (graph s)
            \<lparr>ext = (\<lambda>m p. if (m, p) = port then a else (\<lambda>t. 0)), filt = (\<lambda>m t. 0)\<rparr> n t
      | _ \<Rightarrow> None)"

subsection \<open>Tone.PingPongDelay\<close>

datatype punit =
    PP_effectSendL | PP_effectSendR | PP_effectReturnL | PP_effectReturnR
  | PP_feedbackLR | PP_feedbackRL | PP_feedback
  | PP_leftDelay | PP_rightDelay | PP_delayTime

text \<open>The fields \<^verbatim>\<open>_leftDelay\<close>, \<^verbatim>\<open>_rightDelay\<close> and \<^verbatim>\<open>delayTime\<close>.\<close>

record 'b PingPongDelay = "(punit, 'b) composite" +
  pp_leftDelay :: "punit option"
  pp_rightDelay :: "punit option"
  pp_delayTime :: "punit option"

text \<open>\<^verbatim>\<open>node.disconnect()\<close> on a node of the graph; there must be a node.\<close>

definition node_disconnect :: "'u graph \<Rightarrow> 'u node \<Rightarrow> 'u graph outcome" where
  "node_disconnect g this =
     (case objs g this of None \<Rightarrow> Throws TypeError g | Some ob \<Rightarrow> Returns (disconnect g this))"

text \<open>
  The constructor, GreaterThan.js, lines 107 to 139, run on the object as
  \<^verbatim>\<open>Tone.StereoXFeedbackEffect.call(this, options)\<close> leaves it (graph \<open>g0\<close>, base part
  \<open>b\<close>); \<open>delayTime\<close> and \<open>maxDelayTime\<close> are the two options, in seconds, after
  \<^verbatim>\<open>optionsObject\<close> has filled in the defaults (lines 147 to 150: a quarter of a second
  and one second).
\<close>

definition PingPongDelay_new ::
  "punit graph \<Rightarrow> 'b \<Rightarrow> real \<Rightarrow> real \<Rightarrow> 'b PingPongDelay outcome" where
  "PingPongDelay_new g0 b delayTime maxDelayTime =
     seq
       [\<lambda>s. Returns (s\<lparr>graph := createDelay (graph s) PP_leftDelay (Some maxDelayTime),
                        pp_leftDelay := Some PP_leftDelay\<rparr>),
        \<lambda>s. Returns (s\<lparr>graph := createDelay (graph s) PP_rightDelay (Some maxDelayTime),
                        pp_rightDelay := Some PP_rightDelay\<rparr>),
        \<lambda>s. Returns (s\<lparr>graph := new_Signal (graph s) PP_delayTime delayTime,
                        pp_delayTime := Some PP_delayTime\<rparr>),
        on_graph (\<lambda>g. chain g (Node PP_effectSendL) [Node PP_leftDelay, Node PP_effectReturnL]),
        on_graph (\<lambda>g. chain g (Node PP_effectSendR) [Node PP_rightDelay, Node PP_effectReturnR]),
        on_graph (\<lambda>g. fan g (Node PP_delayTime)
           [Param PP_leftDelay P_delayTime, Param PP_rightDelay P_delayTime]),
        on_graph (\<lambda>g. node_disconnect g (Node PP_feedbackRL)),
        on_graph (\<lambda>g. unit_connect g (Node PP_feedbackRL) (Node PP_leftDelay) None None)]
       \<lparr>graph = g0, calls = [], base = b,
        pp_leftDelay = None, pp_rightDelay = None, pp_delayTime = None\<rparr>"

text \<open>
  GreaterThan.js, lines 156 to 165; \<open>base_dispose\<close> is
  \<^verbatim>\<open>Tone.StereoXFeedbackEffect.prototype.dispose\<close>.
\<close>

definition PingPongDelay_dispose ::
  "('b \<Rightarrow> 'b outcome) \<Rightarrow> 'b PingPongDelay \<Rightarrow> 'b PingPongDelay outcome" where
  "PingPongDelay_dispose base_dispose =
     seq
       [base_call base_dispose,
        \<lambda>s. field_call Disconnect (pp_leftDelay s) s,
        \<lambda>s. Returns (s\<lparr>pp_leftDelay := None\<rparr>),
        \<lambda>s. field_call Disconnect (pp_rightDelay s) s,
        \<lambda>s. Returns (s\<lparr>pp_rightDelay := None\<rparr>),
        \<lambda>s. field_call Dispose (pp_delayTime s) s,
        \<lambda>s. Returns (s\<lparr>pp_delayTime := None\<rparr>)]"

text \<open>
  Modelled from the spec: Tone.StereoXFeedbackEffect is not in the sources. The spec has
  the base route each channel's feedback into the opposite channel's send: the left return
  feeds the left-to-right feedback gain and that the right send, the right return feeds
  the right-to-left feedback gain and that the left send. One feedback signal drives both
  gains.
\<close>

definition StereoXFeedbackEffect_new :: "real \<Rightarrow> punit graph outcome" where
  "StereoXFeedbackEffect_new feedback =
     seq
       [\<lambda>g. Returns (createGain (createGain g PP_effectSendL) PP_effectSendR),
        \<lambda>g. Returns (createGain (createGain g PP_effectReturnL) PP_effectReturnR),
        \<lambda>g. Returns (new_Signal g PP_feedback feedback),
        \<lambda>g. Returns (createGain (createGain g PP_feedbackLR) PP_feedbackRL),
        \<lambda>g. chain g (Node PP_effectReturnL) [Node PP_feedbackLR, Node PP_effectSendR],
        \<lambda>g. chain g (Node PP_effectReturnR) [Node PP_feedbackRL, Node PP_effectSendL],
        \<lambda>g. fan g (Node PP_feedback) [Param PP_feedbackLR P_gain, Param PP_feedbackRL P_gain]]
       \<lparr>objs = Map.empty, edges = []\<rparr>"

text \<open>
  Modelled from the spec: the delay time ``changes dynamically'' when the shared signal
  is given a new value; the setter of Tone.Signal is not in the sources.
\<close>

definition PingPongDelay_set_delayTime :: "real \<Rightarrow> 'b PingPongDelay \<Rightarrow> 'b PingPongDelay outcome" where
  "PingPongDelay_set_delayTime v s =
     (case pp_delayTime s of
        None \<Rightarrow> Throws TypeError s
      | Some u \<Rightarrow> on_graph (\<lambda>g. set_value g (Param u P_value) v) s)"

section \<open>Notions the statements use\<close>

text \<open>What a call threw, and the state it ended in.\<close>

fun thrown :: "'s outcome \<Rightarrow> error option" where
  "thrown (Returns s) = None"
| "thrown (Throws e s) = Some e"

fun state_of :: "'s outcome \<Rightarrow> 's" where
  "state_of (Returns s) = s"
| "state_of (Throws e s) = s"

text \<open>What arrives at input \<open>p\<close> of node \<open>n\<close> at time \<open>t\<close>, the sources read at depth \<open>k\<close>.\<close>

definition inp :: "nat \<Rightarrow> 'u graph \<Rightarrow> 'u env \<Rightarrow> 'u node \<Rightarrow> nat \<Rightarrow> real \<Rightarrow> reading" where
  "inp k g E n p t =
     map_reading (js_add (Num (ext E n p t)))
       (sum_opt (map (\<lambda>m. out k g E m t) (sources g n p)))"

text \<open>
  A context for the examples: time values are numbers of seconds, the buffer is 128
  frames at 44100 Hz, and a duration becomes a frequency by the quotient \<^verbatim>\<open>1 / seconds\<close>.
\<close>

definition example_tone :: "jsnum tone" where
  "example_tone =
     \<lparr>bufferTime = 128 / 44100, toSeconds = (\<lambda>x. x), secondsToFrequency = js_reciprocal\<rparr>"

definition constant_signal :: "real \<Rightarrow> real \<Rightarrow> real" where
  "constant_signal c t = c"

text \<open>
  A graph with a Tone.Signal at unit 0 and, at unit 1, an instance of a class derived from
  Tone.Signal that holds the value 5 and one scheduled change.
\<close>

definition subclass_signal_graph :: "nat graph" where
  "subclass_signal_graph =
     \<lparr>objs = [Node 0 \<mapsto> Signal Tone_Signal, Param 0 P_value \<mapsto> AudioParam 1 [],
              Node 1 \<mapsto> Signal (Extended ''Derived'' Tone_Signal),
              Param 1 P_value \<mapsto> AudioParam 5 [(1, 7)]],
      edges = []\<rparr>"

text \<open>
  A graph with a Tone.Signal at unit 0 that holds 5 and one scheduled change, a bare
  parameter of unit 1 with the same, and two gain nodes at units 2 and 3.
\<close>

definition connect_graph :: "nat graph" where
  "connect_graph =
     \<lparr>objs = [Node 0 \<mapsto> Signal Tone_Signal, Param 0 P_value \<mapsto> AudioParam 5 [(1, 7)],
              Param 1 P_gain \<mapsto> AudioParam 5 [(1, 7)],
              Node 2 \<mapsto> GainNode, Node 3 \<mapsto> GainNode],
      edges = []\<rparr>"

text \<open>The mapping in the follower's wave shaper.\<close>

definition table_of :: "('t, 'b) Follower \<Rightarrow> (jsnum \<Rightarrow> jsnum) option" where
  "table_of s =
     (case fo_frequencyValues s of
        None \<Rightarrow> None
      | Some u \<Rightarrow> (case objs (graph s) (Node u) of Some (WaveShaper f) \<Rightarrow> Some f | _ \<Rightarrow> None))"

text \<open>
  The cutoff frequency that lines 107 to 110 of Follower.js make of a time value:
  \<^verbatim>\<open>Math.max\<close> of the converted frequency and \<^verbatim>\<open>minTime\<close>.
\<close>

definition cutoff :: "'t tone \<Rightarrow> 't \<Rightarrow> jsnum" where
  "cutoff T x = Math_max (secondsToFrequency T (toSeconds T x)) (Num (bufferTime T))"

text \<open>
  The follower in its surroundings: the signal \<open>x\<close> arrives at its input, nothing
  arrives at any inner port, and its filter puts out the signal \<open>s\<close>.
\<close>

definition Follower_env :: "(real \<Rightarrow> real) \<Rightarrow> (real \<Rightarrow> real) \<Rightarrow> funit env" where
  "Follower_env x s =
     \<lparr>ext = (\<lambda>n p. if n = Node F_input \<and> p = 0 then x else (\<lambda>t. 0)), filt = (\<lambda>n. s)\<rparr>"

text \<open>The connections the follower's constructor makes, the last one first.\<close>

definition Follower_edges :: "funit edge list" where
  "Follower_edges =
     [(Node F_frequencyValues, 0, Param F_filter P_frequency, 0),
      (Node F_mult, 0, Node F_frequencyValues, 0),
      (Node F_sub, 0, Node F_mult, 0),
      (Node F_delay, 0, Node F_sub, 0),
      (Node F_filter, 0, Node F_delay, 0),
      (Node F_abs, 0, Node F_sub, 1),
      (Node F_filter, 0, Node F_output, 0),
      (Node F_abs, 0, Node F_filter, 0),
      (Node F_input, 0, Node F_abs, 0)]"

text \<open>The unit a port belongs to; a unit that no connection of the graph touches.\<close>

fun unit_of :: "'u node \<Rightarrow> 'u" where
  "unit_of (Node u) = u"
| "unit_of (Param u p) = u"

definition untouched :: "'u graph \<Rightarrow> 'u \<Rightarrow> bool" where
  "untouched g u =
     list_all (\<lambda>e. unit_of (fst e) \<noteq> u \<and> unit_of (fst (snd (snd e))) \<noteq> u) (edges g)"

text \<open>
  What the constructor of PingPongDelay relies on in the object the base constructor
  leaves: the two sends and the right-to-left feedback are gain nodes, and the three units
  it is about to create are connected to nothing yet.
\<close>

definition base_effect :: "punit graph \<Rightarrow> bool" where
  "base_effect g0 \<longleftrightarrow>
     objs g0 (Node PP_effectSendL) = Some GainNode \<and>
     objs g0 (Node PP_effectSendR) = Some GainNode \<and>
     objs g0 (Node PP_feedbackRL) = Some GainNode \<and>
     untouched g0 PP_leftDelay \<and> untouched g0 PP_rightDelay \<and> untouched g0 PP_delayTime"

text \<open>Any number of changes of the delay time, one after the other.\<close>

fun set_delayTimes :: "real list \<Rightarrow> 'b PingPongDelay \<Rightarrow> 'b PingPongDelay outcome" where
  "set_delayTimes [] s = Returns s"
| "set_delayTimes (v # vs) s = and_then (PingPongDelay_set_delayTime v s) (set_delayTimes vs)"

text \<open>
  The stereo delay in its surroundings: the left and the right input arrive at the two
  sends, and nothing arrives from outside at any other port.
\<close>

definition PingPongDelay_env :: "(real \<Rightarrow> real) \<Rightarrow> (real \<Rightarrow> real) \<Rightarrow> punit env" where
  "PingPongDelay_env xL xR =
     \<lparr>ext = (\<lambda>n p. if n = Node PP_effectSendL \<and> p = 0 then xL
                     else if n = Node PP_effectSendR \<and> p = 0 then xR else (\<lambda>t. 0)),
      filt = (\<lambda>n t. 0)\<rparr>"








section \<open>Properties\<close>

subsection \<open>Unfolding the definitions\<close>

lemmas wiring_defs =
  setMap_def on_graph_def set_value_def createGain_def createDelay_def createBiquadFilter_def
  new_unit_def new_Signal_def unit_connect_def SignalBase_connect_def Tone_connect_def
  cancelScheduledValues_def node_disconnect_def disconnect_def

lemma js_add_Num_0 [simp]: "js_add (Num 0) x = x" "js_add x (Num 0) = x"
  by (cases x; simp)+

lemma map_reading_simps [simp]:
  "map_reading f None = None"
  "map_reading f (Some (Inl e)) = Some (Inl e)"
  "map_reading f (Some (Inr x)) = Some (Inr (f x))"
  by (simp_all add: map_reading_def)

lemma out_Suc:
  "out (Suc k) g E n t =
     (case objs g n of
           None \<Rightarrow> None
         | Some (AudioParam v evs) \<Rightarrow> map_reading (js_add (Num v)) (inp k g E n 0 t)
         | Some GainNode \<Rightarrow>
             then_reading (out k g E (param_of n P_gain) t)
               (\<lambda>a. map_reading (js_mul a) (inp k g E n 0 t))
         | Some (DelayNode m) \<Rightarrow>
             then_reading (out k g E (param_of n P_delayTime) t)
               (\<lambda>d. case delay_of m d of
                      None \<Rightarrow> Some (Inl RangeError)
                    | Some r \<Rightarrow> if t < r then sample 0 else inp k g E n 0 (t - r))
         | Some BiquadFilterNode \<Rightarrow> sample (filt E n t)
         | Some (Signal c) \<Rightarrow>
             then_reading (out k g E (param_of n P_value) t)
               (\<lambda>v. map_reading (js_add v) (inp k g E n 0 t))
         | Some Abs \<Rightarrow> map_reading js_abs (inp k g E n 0 t)
         | Some (Subtract v) \<Rightarrow>
             then_reading (inp k g E n 0 t)
               (\<lambda>a. map_reading (\<lambda>b. js_sub a (js_add (Num v) b)) (inp k g E n 1 t))
         | Some (Multiply v) \<Rightarrow> map_reading (js_mul (Num v)) (inp k g E n 0 t)
         | Some (WaveShaper f) \<Rightarrow> map_reading f (inp k g E n 0 t)
         | Some GreaterThanZero \<Rightarrow>
             map_reading (\<lambda>x. if js_lt (Num 0) x then Num 1 else Num 0) (inp k g E n 0 t))"
  unfolding inp_def by (simp add: Let_def)

subsection \<open>The follower\<close>

lemma setAttackRelease_table:
  "fo_frequencyValues s = Some u \<Longrightarrow> objs (graph s) (Node u) = Some (WaveShaper old) \<Longrightarrow>
   Follower_setAttackRelease T a r s =
     Returns (s\<lparr>graph := (graph s)\<lparr>objs := (objs (graph s))(Node u \<mapsto>
        WaveShaper (\<lambda>val. if js_le val (Num 0) then cutoff T a else cutoff T r))\<rparr>\<rparr>)"
  unfolding cutoff_def by (simp add: Follower_setAttackRelease_def setMap_def Let_def)

lemma setAttackRelease_Returns:
  assumes "Follower_setAttackRelease T a r s = Returns s'"
  shows "\<exists>u old. fo_frequencyValues s = Some u \<and> objs (graph s) (Node u) = Some (WaveShaper old)"
  using assms
  by (auto simp: Follower_setAttackRelease_def setMap_def Let_def split: option.splits obj.splits)

lemma Follower_new_graph:
  "\<exists>s. Follower_new T b a r = Returns s \<and> edges (graph s) = Follower_edges \<and>
     objs (graph s) (Node F_input) = Some GainNode \<and>
     objs (graph s) (Param F_input P_gain) = Some (AudioParam 1 []) \<and>
     objs (graph s) (Node F_abs) = Some Abs \<and>
     objs (graph s) (Node F_filter) = Some BiquadFilterNode \<and>
     objs (graph s) (Param F_filter P_frequency) = Some (AudioParam 0 []) \<and>
     objs (graph s) (Node F_delay) = Some (DelayNode None) \<and>
     objs (graph s) (Param F_delay P_delayTime) = Some (AudioParam (bufferTime T) []) \<and>
     objs (graph s) (Node F_sub) = Some (Subtract 0) \<and>
     objs (graph s) (Node F_mult) = Some (Multiply 10000) \<and>
     objs (graph s) (Node F_frequencyValues) =
       Some (WaveShaper (\<lambda>val. if js_le val (Num 0) then cutoff T a else cutoff T r)) \<and>
     fo_abs s = Some F_abs \<and> fo_filter s = Some F_filter \<and>
     fo_frequencyValues s = Some F_frequencyValues \<and> fo_sub s = Some F_sub \<and>
     fo_delay s = Some F_delay \<and> fo_mult s = Some F_mult \<and>
     fo_attack s = a \<and> fo_release s = r \<and> calls s = [] \<and> base s = b"
  by (simp add: Follower_new_def setAttackRelease_table wiring_defs Follower_edges_def)

lemma Follower_signals:
  assumes e: "edges g = Follower_edges"
    and o: "objs g (Node F_input) = Some GainNode"
     "objs g (Param F_input P_gain) = Some (AudioParam 1 [])"
     "objs g (Node F_abs) = Some Abs"
     "objs g (Node F_filter) = Some BiquadFilterNode"
     "objs g (Param F_filter P_frequency) = Some (AudioParam 0 [])"
     "objs g (Node F_delay) = Some (DelayNode None)"
     "objs g (Param F_delay P_delayTime) = Some (AudioParam d [])"
     "objs g (Node F_sub) = Some (Subtract 0)"
     "objs g (Node F_mult) = Some (Multiply 10000)"
     "objs g (Node F_frequencyValues) = Some (WaveShaper f)"
  shows "inp (5 + j) g (Follower_env x s) (Node F_frequencyValues) 0 t =
           sample (10000 * ((if t < d then 0 else s (t - d)) - \<bar>x t\<bar>))"
    and "out (7 + j) g (Follower_env x s) (Param F_filter P_frequency) t =
           Some (Inr (f (Num (10000 * ((if t < d then 0 else s (t - d)) - \<bar>x t\<bar>)))))"
proof -
  let ?E = "Follower_env x s"
  note [simp del] = out.simps
  have src [simp]:
    "sources g (Node F_input) 0 = []" "sources g (Param F_input P_gain) 0 = []"
    "sources g (Node F_abs) 0 = [Node F_input]" "sources g (Param F_delay P_delayTime) 0 = []"
    "sources g (Node F_delay) 0 = [Node F_filter]" "sources g (Node F_sub) 0 = [Node F_delay]"
    "sources g (Node F_sub) (Suc 0) = [Node F_abs]" "sources g (Node F_mult) 0 = [Node F_sub]"
    "sources g (Node F_frequencyValues) 0 = [Node F_mult]"
    "sources g (Param F_filter P_frequency) 0 = [Node F_frequencyValues]"
    by (simp_all add: sources_def e Follower_edges_def)
  have ext0 [simp]: "\<And>n p t. n \<noteq> Node F_input \<Longrightarrow> ext ?E n p t = 0"
    "\<And>t. ext ?E (Node F_input) 0 t = x t" "\<And>n t. filt ?E n t = s t"
    by (simp_all add: Follower_env_def)
  have gain: "out (Suc k) g ?E (Param F_input P_gain) t' = sample 1" for k t'
    by (subst out_Suc) (simp add: o inp_def)
  have input: "out (Suc (Suc k)) g ?E (Node F_input) t' = sample (x t')" for k t'
    by (subst out_Suc) (simp add: o inp_def gain)
  have ab: "out (Suc (Suc (Suc k))) g ?E (Node F_abs) t' = sample \<bar>x t'\<bar>" for k t'
    by (subst out_Suc) (simp add: o inp_def input)
  have fi: "out (Suc k) g ?E (Node F_filter) t' = sample (s t')" for k t'
    by (subst out_Suc) (simp add: o)
  have dt: "out (Suc k) g ?E (Param F_delay P_delayTime) t' = sample d" for k t'
    by (subst out_Suc) (simp add: o inp_def)
  have de: "out (Suc (Suc k)) g ?E (Node F_delay) t' =
      sample (if t' < d then 0 else s (t' - d))" for k t'
    by (subst out_Suc) (simp add: o inp_def dt fi)
  have su: "out (Suc (Suc (Suc (Suc k)))) g ?E (Node F_sub) t' =
      sample ((if t' < d then 0 else s (t' - d)) - \<bar>x t'\<bar>)" for k t'
    by (subst out_Suc) (simp add: o inp_def de ab js_sub_def)
  have mu: "out (Suc (Suc (Suc (Suc (Suc k))))) g ?E (Node F_mult) t' =
      sample (10000 * ((if t' < d then 0 else s (t' - d)) - \<bar>x t'\<bar>))" for k t'
    by (subst out_Suc) (simp add: o inp_def su)
  have fv: "out (Suc (Suc (Suc (Suc (Suc (Suc k)))))) g ?E (Node F_frequencyValues) t' =
      Some (Inr (f (Num (10000 * ((if t' < d then 0 else s (t' - d)) - \<bar>x t'\<bar>)))))" for k t'
    by (subst out_Suc) (simp add: o inp_def mu)
  have fr: "out (Suc (Suc (Suc (Suc (Suc (Suc (Suc k))))))) g ?E (Param F_filter P_frequency) t' =
      Some (Inr (f (Num (10000 * ((if t' < d then 0 else s (t' - d)) - \<bar>x t'\<bar>)))))" for k t'
    by (subst out_Suc) (simp add: o inp_def fv)
  show "inp (5 + j) g (Follower_env x s) (Node F_frequencyValues) 0 t =
           sample (10000 * ((if t < d then 0 else s (t - d)) - \<bar>x t\<bar>))"
    using mu [of j t] by (simp add: eval_nat_numeral inp_def)
  show "out (7 + j) g (Follower_env x s) (Param F_filter P_frequency) t =
           Some (Inr (f (Num (10000 * ((if t < d then 0 else s (t - d)) - \<bar>x t\<bar>)))))"
    using fr [of j t] by (simp add: eval_nat_numeral)
qed

text \<open>
  C3, as the code has it. In the follower's control path the shaping table is fed 10000
  times \<open>s(t - eps) - r(t)\<close>: the rectified input \<open>r = |x|\<close> subtracted from the filter
  output \<open>s\<close> delayed by the buffer time \<open>eps\<close> (silence before \<open>eps\<close>). The table maps
  every value at or below 0 to the attack cutoff and every value above 0 to the release
  cutoff, so the filter's frequency parameter receives the attack cutoff exactly when the
  delayed filter output does not exceed the rectified input.
\<close>

theorem Follower_control_path:
  "\<exists>s0. Follower_new T b a r = Returns s0 \<and>
     table_of s0 = Some (\<lambda>val. if js_le val (Num 0) then cutoff T a else cutoff T r) \<and>
     (\<forall>j x s t.
        inp (5 + j) (graph s0) (Follower_env x s) (Node F_frequencyValues) 0 t =
          sample (10000 * ((if t < bufferTime T then 0 else s (t - bufferTime T)) - \<bar>x t\<bar>)) \<and>
        out (7 + j) (graph s0) (Follower_env x s) (Param F_filter P_frequency) t =
          Some (Inr (if (if t < bufferTime T then 0 else s (t - bufferTime T)) - \<bar>x t\<bar> \<le> 0
                     then cutoff T a else cutoff T r)))"
proof -
  obtain s0 where s0: "Follower_new T b a r = Returns s0"
    and e: "edges (graph s0) = Follower_edges"
    and o: "objs (graph s0) (Node F_input) = Some GainNode"
     "objs (graph s0) (Param F_input P_gain) = Some (AudioParam 1 [])"
     "objs (graph s0) (Node F_abs) = Some Abs"
     "objs (graph s0) (Node F_filter) = Some BiquadFilterNode"
     "objs (graph s0) (Param F_filter P_frequency) = Some (AudioParam 0 [])"
     "objs (graph s0) (Node F_delay) = Some (DelayNode None)"
     "objs (graph s0) (Param F_delay P_delayTime) = Some (AudioParam (bufferTime T) [])"
     "objs (graph s0) (Node F_sub) = Some (Subtract 0)"
     "objs (graph s0) (Node F_mult) = Some (Multiply 10000)"
     "objs (graph s0) (Node F_frequencyValues) =
        Some (WaveShaper (\<lambda>val. if js_le val (Num 0) then cutoff T a else cutoff T r))"
    and f: "fo_frequencyValues s0 = Some F_frequencyValues"
    using Follower_new_graph [of T b a r] by blast
  have tab: "table_of s0 = Some (\<lambda>val. if js_le val (Num 0) then cutoff T a else cutoff T r)"
    by (simp add: table_of_def f o)
  have sig: "inp (5 + j) (graph s0) (Follower_env x s) (Node F_frequencyValues) 0 t =
          sample (10000 * ((if t < bufferTime T then 0 else s (t - bufferTime T)) - \<bar>x t\<bar>)) \<and>
        out (7 + j) (graph s0) (Follower_env x s) (Param F_filter P_frequency) t =
          Some (Inr (if (if t < bufferTime T then 0 else s (t - bufferTime T)) - \<bar>x t\<bar> \<le> 0
                     then cutoff T a else cutoff T r))" for j x s t
    using Follower_signals [OF e o, of j x s t]
    by (simp add: mult_le_0_iff)
  show ?thesis using s0 tab sig by blast
qed


text \<open>
  C3, as stated, has the table fed \<open>r(t) - s(t - eps)\<close>, amplified. With the constant input 1
  and a filter output of 0 that would be 10000; the wired graph feeds the table -10000,
  and the filter's frequency receives the attack cutoff 20 and not the release cutoff 2.
\<close>

theorem Follower_direction_sign_counterexample:
  "thrown (Follower_new example_tone () (Num (1 / 20)) (Num (1 / 2))) = None \<and>
   inp 5 (graph (state_of (Follower_new example_tone () (Num (1 / 20)) (Num (1 / 2)))))
     (Follower_env (constant_signal 1) (constant_signal 0)) (Node F_frequencyValues) 0 1 =
     sample (- 10000) \<and>
   10000 * (\<bar>constant_signal 1 1\<bar> - constant_signal 0 (1 - bufferTime example_tone)) = 10000 \<and>
   out 7 (graph (state_of (Follower_new example_tone () (Num (1 / 20)) (Num (1 / 2)))))
     (Follower_env (constant_signal 1) (constant_signal 0)) (Param F_filter P_frequency) 1 =
     Some (Inr (cutoff example_tone (Num (1 / 20)))) \<and>
   cutoff example_tone (Num (1 / 20)) = Num 20 \<and> cutoff example_tone (Num (1 / 2)) = Num 2"
proof -
  obtain s0 where s0: "Follower_new example_tone () (Num (1 / 20)) (Num (1 / 2)) = Returns s0"
    and e: "edges (graph s0) = Follower_edges"
    and o: "objs (graph s0) (Node F_input) = Some GainNode"
     "objs (graph s0) (Param F_input P_gain) = Some (AudioParam 1 [])"
     "objs (graph s0) (Node F_abs) = Some Abs"
     "objs (graph s0) (Node F_filter) = Some BiquadFilterNode"
     "objs (graph s0) (Param F_filter P_frequency) = Some (AudioParam 0 [])"
     "objs (graph s0) (Node F_delay) = Some (DelayNode None)"
     "objs (graph s0) (Param F_delay P_delayTime) = Some (AudioParam (bufferTime example_tone) [])"
     "objs (graph s0) (Node F_sub) = Some (Subtract 0)"
     "objs (graph s0) (Node F_mult) = Some (Multiply 10000)"
     "objs (graph s0) (Node F_frequencyValues) =
        Some (WaveShaper (\<lambda>val. if js_le val (Num 0) then cutoff example_tone (Num (1 / 20))
                                 else cutoff example_tone (Num (1 / 2))))"
    using Follower_new_graph [of example_tone "()" "Num (1 / 20)" "Num (1 / 2)"] by blast
  have c: "cutoff example_tone (Num (1 / 20)) = Num 20" "cutoff example_tone (Num (1 / 2)) = Num 2"
    by (simp_all add: cutoff_def example_tone_def)
  note sig = Follower_signals [OF e o, of 0 "constant_signal 1" "constant_signal 0" 1]
  have A: "inp 5 (graph s0) (Follower_env (constant_signal 1) (constant_signal 0))
      (Node F_frequencyValues) 0 1 = sample (- 10000)"
    using sig(1) by (simp add: constant_signal_def)
  have B: "out 7 (graph s0) (Follower_env (constant_signal 1) (constant_signal 0))
      (Param F_filter P_frequency) 1 = Some (Inr (cutoff example_tone (Num (1 / 20))))"
    using sig(2) by (simp add: constant_signal_def)
  have C: "10000 * (\<bar>constant_signal 1 1\<bar> - constant_signal 0 (1 - bufferTime example_tone)) = 10000"
    by (simp add: constant_signal_def)
  show ?thesis
    unfolding s0 thrown.simps state_of.simps using A B C c by blast
qed

lemma cutoff_cases:
  "cutoff T x = Math_max (secondsToFrequency T (toSeconds T x)) (Num (bufferTime T))"
  "js_le (secondsToFrequency T (toSeconds T x)) (Num (bufferTime T)) \<Longrightarrow>
     cutoff T x = Num (bufferTime T)"
  "secondsToFrequency T (toSeconds T x) = PosInf \<Longrightarrow> cutoff T x = PosInf"
  "secondsToFrequency T (toSeconds T x) = NaN \<Longrightarrow> cutoff T x = NaN"
  "0 < bufferTime T \<Longrightarrow> \<not> js_le (cutoff T x) (Num 0)"
  "0 < bufferTime T \<Longrightarrow> cutoff T x = NaN \<or> js_le (Num (bufferTime T)) (cutoff T x)"
  by (cases "secondsToFrequency T (toSeconds T x)"; simp add: cutoff_def)+

text \<open>
  C4, as stated, has a non-positive or unrepresentable duration clamped to the minimum. A
  follower built with the attack 0 seconds and the release NaN, conversion by
  \<^verbatim>\<open>1 / seconds\<close>: the constructor returns, and the table holds Infinity for the attack
  and NaN for the release, neither of them the minimum.
\<close>

theorem Follower_zero_duration_counterexample:
  "thrown (Follower_new example_tone () (Num 0) NaN) = None \<and>
   table_of (state_of (Follower_new example_tone () (Num 0) NaN)) =
     Some (\<lambda>val. if js_le val (Num 0) then PosInf else NaN) \<and>
   toSeconds example_tone (Num 0) = Num 0 \<and> toSeconds example_tone NaN = NaN \<and>
   PosInf \<noteq> Num (bufferTime example_tone) \<and> NaN \<noteq> Num (bufferTime example_tone)"
proof -
  obtain s0 where s0: "Follower_new example_tone () (Num 0) NaN = Returns s0"
    and o: "objs (graph s0) (Node F_frequencyValues) =
        Some (WaveShaper (\<lambda>val. if js_le val (Num 0) then cutoff example_tone (Num 0)
                                 else cutoff example_tone NaN))"
    and f: "fo_frequencyValues s0 = Some F_frequencyValues"
    using Follower_new_graph [of example_tone "()" "Num 0" NaN] by blast
  have c: "cutoff example_tone (Num 0) = PosInf" "cutoff example_tone NaN = NaN"
    by (simp_all add: cutoff_def example_tone_def)
  have tab: "table_of s0 = Some (\<lambda>val. if js_le val (Num 0) then PosInf else NaN)"
    using o unfolding c by (simp add: table_of_def f)
  have t: "toSeconds example_tone (Num 0) = Num 0" "toSeconds example_tone NaN = NaN"
    by (simp_all add: example_tone_def)
  show ?thesis
    unfolding s0 thrown.simps state_of.simps using tab t by simp
qed

text \<open>
  C4, as the code has it. The constructor and both setters store in the shaping table, for
  the attack and for the release, \<^verbatim>\<open>Math.max\<close> of the frequency
  \<open>secondsToFrequency (toSeconds t)\<close> and the buffer time, and no call throws. A time
  value whose frequency does not exceed the buffer time is stored as the buffer time. With
  a positive buffer time no stored value is zero or negative: it is at least the buffer
  time, or it is NaN. A frequency that is Infinity is stored as Infinity, and one that is
  NaN as NaN.
\<close>

theorem Follower_cutoffs_floored:
  "(\<exists>s. Follower_new T b a r = Returns s \<and>
      table_of s = Some (\<lambda>val. if js_le val (Num 0) then cutoff T a else cutoff T r)) \<and>
   (table_of s \<noteq> None \<longrightarrow>
      (\<exists>s'. Follower_set_attack T a s = Returns s' \<and>
         table_of s' =
           Some (\<lambda>val. if js_le val (Num 0) then cutoff T a else cutoff T (fo_release s))) \<and>
      (\<exists>s'. Follower_set_release T r s = Returns s' \<and>
         table_of s' =
           Some (\<lambda>val. if js_le val (Num 0) then cutoff T (fo_attack s) else cutoff T r))) \<and>
   cutoff T x = Math_max (secondsToFrequency T (toSeconds T x)) (Num (bufferTime T)) \<and>
   (js_le (secondsToFrequency T (toSeconds T x)) (Num (bufferTime T)) \<longrightarrow>
      cutoff T x = Num (bufferTime T)) \<and>
   (0 < bufferTime T \<longrightarrow>
      \<not> js_le (cutoff T x) (Num 0) \<and>
      (cutoff T x = NaN \<or> js_le (Num (bufferTime T)) (cutoff T x))) \<and>
   (secondsToFrequency T (toSeconds T x) = PosInf \<longrightarrow> cutoff T x = PosInf) \<and>
   (secondsToFrequency T (toSeconds T x) = NaN \<longrightarrow> cutoff T x = NaN)"
proof (intro conjI impI)
  show "\<exists>s. Follower_new T b a r = Returns s \<and>
      table_of s = Some (\<lambda>val. if js_le val (Num 0) then cutoff T a else cutoff T r)"
    using Follower_new_graph [of T b a r] by (auto simp: table_of_def)
next
  assume t: "table_of s \<noteq> None"
  then obtain u old where u: "fo_frequencyValues s = Some u"
    "objs (graph s) (Node u) = Some (WaveShaper old)"
    by (auto simp: table_of_def split: option.splits obj.splits)
  show "\<exists>s'. Follower_set_attack T a s = Returns s' \<and>
         table_of s' =
           Some (\<lambda>val. if js_le val (Num 0) then cutoff T a else cutoff T (fo_release s))"
    using u by (simp add: Follower_set_attack_def setAttackRelease_table table_of_def)
  show "\<exists>s'. Follower_set_release T r s = Returns s' \<and>
         table_of s' =
           Some (\<lambda>val. if js_le val (Num 0) then cutoff T (fo_attack s) else cutoff T r)"
    using u by (simp add: Follower_set_release_def setAttackRelease_table table_of_def)
qed (insert cutoff_cases [of T x], blast+)

text \<open>
  The attack set to -1 second on a follower built with 1/20 and 1/2, conversion by
  \<^verbatim>\<open>1 / seconds\<close>: the frequency -1 is stored as the buffer time. The durations 0 and
  NaN are stored as Infinity and NaN.
\<close>

theorem Follower_cutoffs_floored_witness:
  "(\<exists>s'. Follower_set_attack example_tone (Num (- 1))
            (state_of (Follower_new example_tone () (Num (1 / 20)) (Num (1 / 2)))) = Returns s' \<and>
      table_of s' = Some (\<lambda>val. if js_le val (Num 0) then cutoff example_tone (Num (- 1))
                                 else cutoff example_tone (Num (1 / 2)))) \<and>
   cutoff example_tone (Num (- 1)) = Num (bufferTime example_tone) \<and>
   \<not> js_le (cutoff example_tone (Num (1 / 20))) (Num 0) \<and> 0 < bufferTime example_tone \<and>
   cutoff example_tone (Num 0) = PosInf \<and> cutoff example_tone NaN = NaN"
proof -
  let ?s = "state_of (Follower_new example_tone () (Num (1 / 20)) (Num (1 / 2)))"
  have "\<exists>s. Follower_new example_tone () (Num (1 / 20)) (Num (1 / 2)) = Returns s \<and>
      table_of s = Some (\<lambda>val. if js_le val (Num 0) then cutoff example_tone (Num (1 / 20))
                                else cutoff example_tone (Num (1 / 2)))"
    using Follower_cutoffs_floored [of example_tone "()" "Num (1 / 20)" "Num (1 / 2)"] by blast
  moreover have "fo_release ?s = Num (1 / 2)"
    using Follower_new_graph [of example_tone "()" "Num (1 / 20)" "Num (1 / 2)"] by auto
  ultimately have t: "table_of ?s \<noteq> None" and r: "fo_release ?s = Num (1 / 2)" by auto
  have p: "0 < bufferTime example_tone"
    "js_le (secondsToFrequency example_tone (toSeconds example_tone (Num (- 1))))
       (Num (bufferTime example_tone))"
    "secondsToFrequency example_tone (toSeconds example_tone (Num 0)) = PosInf"
    "secondsToFrequency example_tone (toSeconds example_tone NaN) = NaN"
    by (simp_all add: example_tone_def)
  note th = Follower_cutoffs_floored [of example_tone "()" "Num (- 1)" "Num (1 / 2)" ?s "Num (- 1)"]
  note th' = Follower_cutoffs_floored [of example_tone "()" "Num (- 1)" "Num (1 / 2)" ?s "Num (1 / 20)"]
  note th0 = Follower_cutoffs_floored [of example_tone "()" "Num (- 1)" "Num (1 / 2)" ?s "Num 0"]
  note thN = Follower_cutoffs_floored [of example_tone "()" "Num (- 1)" "Num (1 / 2)" ?s NaN]
  have 1: "\<exists>s'. Follower_set_attack example_tone (Num (- 1)) ?s = Returns s' \<and>
      table_of s' = Some (\<lambda>val. if js_le val (Num 0) then cutoff example_tone (Num (- 1))
                                 else cutoff example_tone (fo_release ?s))"
    using th t by blast
  have 2: "cutoff example_tone (Num (- 1)) = Num (bufferTime example_tone)"
    using th p by blast
  have 3: "\<not> js_le (cutoff example_tone (Num (1 / 20))) (Num 0)"
    using th' p by blast
  have 4: "cutoff example_tone (Num 0) = PosInf"
    using th0 p by blast
  have 5: "cutoff example_tone NaN = NaN"
    using thN p by blast
  show ?thesis
    using 1 [unfolded r] 2 3 4 5 p(1) by blast
qed

lemma and_then_seq_Nil: "and_then x (seq []) = x"
  by (cases x) simp_all

lemma Follower_set_attack_state:
  assumes "Follower_set_attack T v s = Returns s'"
  shows "\<exists>u old. fo_frequencyValues s = Some u \<and>
           objs (graph s) (Node u) = Some (WaveShaper old) \<and>
           s' = s\<lparr>graph := (graph s)\<lparr>objs := (objs (graph s))(Node u \<mapsto>
                  WaveShaper (\<lambda>val. if js_le val (Num 0) then cutoff T v
                                     else cutoff T (fo_release s)))\<rparr>,
                  fo_attack := v\<rparr>"
proof -
  let ?s1 = "s\<lparr>fo_attack := v\<rparr>"
  have s1: "Follower_setAttackRelease T v (fo_release s) ?s1 = Returns s'"
    using assms by (simp add: Follower_set_attack_def and_then_seq_Nil)
  obtain u old where u: "fo_frequencyValues ?s1 = Some u"
    "objs (graph ?s1) (Node u) = Some (WaveShaper old)"
    using setAttackRelease_Returns [OF s1] by blast
  have "s' = ?s1\<lparr>graph := (graph ?s1)\<lparr>objs := (objs (graph ?s1))(Node u \<mapsto>
        WaveShaper (\<lambda>val. if js_le val (Num 0) then cutoff T v else cutoff T (fo_release s)))\<rparr>\<rparr>"
    using s1 setAttackRelease_table [OF u, of T v "fo_release s"] by simp
  then show ?thesis using u by auto
qed

lemma Follower_set_release_state:
  assumes "Follower_set_release T v s = Returns s'"
  shows "\<exists>u old. fo_frequencyValues s = Some u \<and>
           objs (graph s) (Node u) = Some (WaveShaper old) \<and>
           s' = s\<lparr>graph := (graph s)\<lparr>objs := (objs (graph s))(Node u \<mapsto>
                  WaveShaper (\<lambda>val. if js_le val (Num 0) then cutoff T (fo_attack s)
                                     else cutoff T v))\<rparr>,
                  fo_release := v\<rparr>"
proof -
  let ?s1 = "s\<lparr>fo_release := v\<rparr>"
  have s1: "Follower_setAttackRelease T (fo_attack s) v ?s1 = Returns s'"
    using assms by (simp add: Follower_set_release_def and_then_seq_Nil)
  obtain u old where u: "fo_frequencyValues ?s1 = Some u"
    "objs (graph ?s1) (Node u) = Some (WaveShaper old)"
    using setAttackRelease_Returns [OF s1] by blast
  have "s' = ?s1\<lparr>graph := (graph ?s1)\<lparr>objs := (objs (graph ?s1))(Node u \<mapsto>
        WaveShaper (\<lambda>val. if js_le val (Num 0) then cutoff T (fo_attack s) else cutoff T v))\<rparr>\<rparr>"
    using s1 setAttackRelease_table [OF u, of T "fo_attack s" v] by simp
  then show ?thesis using u by auto
qed

text \<open>
  C6. Setting the follower's attack or release rebuilds only the shaping table. A setter
  that returns leaves the follower as it was but for the field it sets and for the wave
  shaper's mapping, which now sends every value at or below 0 to the attack's cutoff
  frequency and every other value to the release's, one of the two made from the new
  time value and the other from the time value the follower already had. The connections
  are the ones there were before, every node holds the object it held before except that
  the wave shaper holds the new mapping, the fields still point at the same units, and no
  disconnect or dispose call has been made. On a follower fresh from its constructor both
  setters return.
\<close>

theorem Follower_setters_keep_topology:
  "(Follower_set_attack T v s = Returns s' \<longrightarrow>
      (\<exists>u old. fo_frequencyValues s = Some u \<and>
         objs (graph s) (Node u) = Some (WaveShaper old) \<and>
         s' = s\<lparr>graph := (graph s)\<lparr>objs := (objs (graph s))(Node u \<mapsto>
                WaveShaper (\<lambda>val. if js_le val (Num 0) then cutoff T v
                                   else cutoff T (fo_release s)))\<rparr>,
                fo_attack := v\<rparr>) \<and>
      table_of s' =
        Some (\<lambda>val. if js_le val (Num 0) then cutoff T v else cutoff T (fo_release s))) \<and>
   (Follower_set_release T v s = Returns s' \<longrightarrow>
      (\<exists>u old. fo_frequencyValues s = Some u \<and>
         objs (graph s) (Node u) = Some (WaveShaper old) \<and>
         s' = s\<lparr>graph := (graph s)\<lparr>objs := (objs (graph s))(Node u \<mapsto>
                WaveShaper (\<lambda>val. if js_le val (Num 0) then cutoff T (fo_attack s)
                                   else cutoff T v))\<rparr>,
                fo_release := v\<rparr>) \<and>
      table_of s' =
        Some (\<lambda>val. if js_le val (Num 0) then cutoff T (fo_attack s) else cutoff T v)) \<and>
   (Follower_set_attack T v s = Returns s' \<or> Follower_set_release T v s = Returns s' \<longrightarrow>
      edges (graph s') = edges (graph s) \<and>
      dom (objs (graph s')) = dom (objs (graph s)) \<and>
      (\<forall>n. objs (graph s') n = objs (graph s) n \<or>
           (\<exists>f f'. objs (graph s) n = Some (WaveShaper f) \<and>
                    objs (graph s') n = Some (WaveShaper f') \<and>
                    fo_frequencyValues s = Some (unit_of n) \<and> n = Node (unit_of n))) \<and>
      fo_abs s' = fo_abs s \<and> fo_filter s' = fo_filter s \<and>
      fo_frequencyValues s' = fo_frequencyValues s \<and> fo_sub s' = fo_sub s \<and>
      fo_delay s' = fo_delay s \<and> fo_mult s' = fo_mult s \<and> fo_curve s' = fo_curve s \<and>
      calls s' = calls s \<and> base s' = base s) \<and>
   (Follower_new T b a r = Returns s \<longrightarrow>
      thrown (Follower_set_attack T v s) = None \<and> thrown (Follower_set_release T v s) = None)"
proof (intro conjI impI)
  assume "Follower_new T b a r = Returns s"
  then have u: "fo_frequencyValues s = Some F_frequencyValues"
    and o: "objs (graph s) (Node F_frequencyValues) =
       Some (WaveShaper (\<lambda>val. if js_le val (Num 0) then cutoff T a else cutoff T r))"
    using Follower_new_graph [of T b a r] by auto
  show "thrown (Follower_set_attack T v s) = None"
    using u o by (simp add: Follower_set_attack_def setAttackRelease_table)
  show "thrown (Follower_set_release T v s) = None"
    using u o by (simp add: Follower_set_release_def setAttackRelease_table)
next
  assume a: "Follower_set_attack T v s = Returns s'"
  show "\<exists>u old. fo_frequencyValues s = Some u \<and>
         objs (graph s) (Node u) = Some (WaveShaper old) \<and>
         s' = s\<lparr>graph := (graph s)\<lparr>objs := (objs (graph s))(Node u \<mapsto>
                WaveShaper (\<lambda>val. if js_le val (Num 0) then cutoff T v
                                   else cutoff T (fo_release s)))\<rparr>,
                fo_attack := v\<rparr>"
    by (rule Follower_set_attack_state [OF a])
  then obtain u old where "fo_frequencyValues s = Some u"
    and "s' = s\<lparr>graph := (graph s)\<lparr>objs := (objs (graph s))(Node u \<mapsto>
                WaveShaper (\<lambda>val. if js_le val (Num 0) then cutoff T v
                                   else cutoff T (fo_release s)))\<rparr>,
                fo_attack := v\<rparr>"
    by blast
  then show "table_of s' =
        Some (\<lambda>val. if js_le val (Num 0) then cutoff T v else cutoff T (fo_release s))"
    by (simp add: table_of_def)
next
  assume a: "Follower_set_release T v s = Returns s'"
  show "\<exists>u old. fo_frequencyValues s = Some u \<and>
         objs (graph s) (Node u) = Some (WaveShaper old) \<and>
         s' = s\<lparr>graph := (graph s)\<lparr>objs := (objs (graph s))(Node u \<mapsto>
                WaveShaper (\<lambda>val. if js_le val (Num 0) then cutoff T (fo_attack s)
                                   else cutoff T v))\<rparr>,
                fo_release := v\<rparr>"
    by (rule Follower_set_release_state [OF a])
  then obtain u old where "fo_frequencyValues s = Some u"
    and "s' = s\<lparr>graph := (graph s)\<lparr>objs := (objs (graph s))(Node u \<mapsto>
                WaveShaper (\<lambda>val. if js_le val (Num 0) then cutoff T (fo_attack s)
                                   else cutoff T v))\<rparr>,
                fo_release := v\<rparr>"
    by blast
  then show "table_of s' =
        Some (\<lambda>val. if js_le val (Num 0) then cutoff T (fo_attack s) else cutoff T v)"
    by (simp add: table_of_def)
next
  assume "Follower_set_attack T v s = Returns s' \<or> Follower_set_release T v s = Returns s'"
  then obtain u old f' where u: "fo_frequencyValues s = Some u"
    "objs (graph s) (Node u) = Some (WaveShaper old)"
    and g: "graph s' = (graph s)\<lparr>objs := (objs (graph s))(Node u \<mapsto> WaveShaper f')\<rparr>"
      "calls s' = calls s" "fo_abs s' = fo_abs s"
      "fo_filter s' = fo_filter s" "fo_frequencyValues s' = fo_frequencyValues s"
      "fo_sub s' = fo_sub s" "fo_delay s' = fo_delay s" "fo_mult s' = fo_mult s"
      "fo_curve s' = fo_curve s" "base s' = base s"
  proof
    assume a: "Follower_set_attack T v s = Returns s'"
    obtain u old where u: "fo_frequencyValues s = Some u"
      "objs (graph s) (Node u) = Some (WaveShaper old)"
      and s': "s' = s\<lparr>graph := (graph s)\<lparr>objs := (objs (graph s))(Node u \<mapsto>
                WaveShaper (\<lambda>val. if js_le val (Num 0) then cutoff T v
                                   else cutoff T (fo_release s)))\<rparr>,
                fo_attack := v\<rparr>"
      using Follower_set_attack_state [OF a] by blast
    show ?thesis by (rule that [OF u]) (simp_all add: s')
  next
    assume a: "Follower_set_release T v s = Returns s'"
    obtain u old where u: "fo_frequencyValues s = Some u"
      "objs (graph s) (Node u) = Some (WaveShaper old)"
      and s': "s' = s\<lparr>graph := (graph s)\<lparr>objs := (objs (graph s))(Node u \<mapsto>
                WaveShaper (\<lambda>val. if js_le val (Num 0) then cutoff T (fo_attack s)
                                   else cutoff T v))\<rparr>,
                fo_release := v\<rparr>"
      using Follower_set_release_state [OF a] by blast
    show ?thesis by (rule that [OF u]) (simp_all add: s')
  qed
  show "edges (graph s') = edges (graph s)" by (simp add: g)
  show "dom (objs (graph s')) = dom (objs (graph s))"
    using u by (auto simp: g)
  show "\<forall>n. objs (graph s') n = objs (graph s) n \<or>
           (\<exists>f f'. objs (graph s) n = Some (WaveShaper f) \<and>
                    objs (graph s') n = Some (WaveShaper f') \<and>
                    fo_frequencyValues s = Some (unit_of n) \<and> n = Node (unit_of n))"
    using u by (auto simp: g)
  show "fo_abs s' = fo_abs s" "fo_filter s' = fo_filter s"
    "fo_frequencyValues s' = fo_frequencyValues s" "fo_sub s' = fo_sub s"
    "fo_delay s' = fo_delay s" "fo_mult s' = fo_mult s" "fo_curve s' = fo_curve s"
    "calls s' = calls s" "base s' = base s"
    by (simp_all add: g)
qed

text \<open>
  The release set to 1 second on a follower built with 1/20 and 1/2, conversion by
  \<^verbatim>\<open>1 / seconds\<close>: the nine connections of the constructor are still the connections,
  and the table now sends the values at or below 0 to 20 and the others to 1. The attack
  set to 1/10 second: the table sends the values at or below 0 to 10 and the others to 2.
\<close>

theorem Follower_setters_keep_topology_witness:
  "thrown (Follower_set_release example_tone (Num 1)
      (state_of (Follower_new example_tone () (Num (1 / 20)) (Num (1 / 2))))) = None \<and>
   edges (graph (state_of (Follower_set_release example_tone (Num 1)
      (state_of (Follower_new example_tone () (Num (1 / 20)) (Num (1 / 2))))))) = Follower_edges \<and>
   table_of (state_of (Follower_set_release example_tone (Num 1)
      (state_of (Follower_new example_tone () (Num (1 / 20)) (Num (1 / 2)))))) =
     Some (\<lambda>val. if js_le val (Num 0) then Num 20 else Num 1) \<and>
   table_of (state_of (Follower_set_attack example_tone (Num (1 / 10))
      (state_of (Follower_new example_tone () (Num (1 / 20)) (Num (1 / 2)))))) =
     Some (\<lambda>val. if js_le val (Num 0) then Num 10 else Num 2)"
proof -
  obtain s where s: "Follower_new example_tone () (Num (1 / 20)) (Num (1 / 2)) = Returns s"
    and e: "edges (graph s) = Follower_edges"
    and ar: "fo_attack s = Num (1 / 20)" "fo_release s = Num (1 / 2)"
    using Follower_new_graph [of example_tone "()" "Num (1 / 20)" "Num (1 / 2)"] by blast
  have c: "cutoff example_tone (Num (1 / 20)) = Num 20" "cutoff example_tone (Num (1 / 2)) = Num 2"
    "cutoff example_tone (Num 1) = Num 1" "cutoff example_tone (Num (1 / 10)) = Num 10"
    by (simp_all add: cutoff_def example_tone_def)
  have t: "thrown (Follower_set_release example_tone (Num 1) s) = None"
    "thrown (Follower_set_attack example_tone (Num (1 / 10)) s) = None"
    using Follower_setters_keep_topology
            [of example_tone "Num 1" s _ "()" "Num (1 / 20)" "Num (1 / 2)"]
          Follower_setters_keep_topology
            [of example_tone "Num (1 / 10)" s _ "()" "Num (1 / 20)" "Num (1 / 2)"] s
    by blast+
  obtain s' where s': "Follower_set_release example_tone (Num 1) s = Returns s'"
    using t(1) by (cases "Follower_set_release example_tone (Num 1) s") auto
  obtain s'' where s'': "Follower_set_attack example_tone (Num (1 / 10)) s = Returns s''"
    using t(2) by (cases "Follower_set_attack example_tone (Num (1 / 10)) s") auto
  note th1 = Follower_setters_keep_topology
               [of example_tone "Num 1" s s' "()" "Num (1 / 20)" "Num (1 / 2)"]
  note th2 = Follower_setters_keep_topology
               [of example_tone "Num (1 / 10)" s s'' "()" "Num (1 / 20)" "Num (1 / 2)"]
  have 1: "edges (graph s') = edges (graph s)"
    using th1 s' by blast
  have 2: "table_of s' = Some (\<lambda>val. if js_le val (Num 0) then cutoff example_tone (fo_attack s)
                                       else cutoff example_tone (Num 1))"
    using th1 s' by blast
  have 3: "table_of s'' = Some (\<lambda>val. if js_le val (Num 0) then cutoff example_tone (Num (1 / 10))
                                        else cutoff example_tone (fo_release s))"
    using th2 s'' by blast
  show ?thesis
    unfolding s state_of.simps s' s'' using t(1) e s' 1 2 3 unfolding ar c by simp
qed

subsection \<open>Connecting\<close>

text \<open>
  C1, as stated, has connect reset every destination that is a parameter or a signal. An
  instance of a class derived from Tone.Signal is a signal; connecting into one that holds
  5 and one scheduled change returns with only the edge added, and the destination still
  holds 5 and the scheduled change.
\<close>

theorem connect_signal_subclass_counterexample:
  "instanceof_Signal (Extended ''Derived'' Tone_Signal) \<and>
   objs subclass_signal_graph (Node 1) = Some (Signal (Extended ''Derived'' Tone_Signal)) \<and>
   objs subclass_signal_graph (Param 1 P_value) = Some (AudioParam 5 [(1, 7)]) \<and>
   SignalBase_connect subclass_signal_graph (Node 0) (Node 1) None None =
     Returns (subclass_signal_graph\<lparr>edges := [(Node 0, 0, Node 1, 0)]\<rparr>) \<and>
   objs (state_of (SignalBase_connect subclass_signal_graph (Node 0) (Node 1) None None))
     (Param 1 P_value) = Some (AudioParam 5 [(1, 7)])"
  by (simp add: subclass_signal_graph_def SignalBase_connect_def Tone_connect_def)

text \<open>
  C1, as the code has it. When the destination's constructor is exactly Tone.Signal
  (holding its value in the parameter \<^verbatim>\<open>_value\<close>) or the destination is an AudioParam,
  connect first cancels the changes scheduled on that parameter from time 0 on (all of
  them, when none is scheduled before time 0) and sets its value to 0, and adds the edge to
  the graph so reset; the parameter still reads 0 when the source is disconnected right
  after. When source and destination are both plain audio nodes, connect adds the edge
  and changes no object.
\<close>

theorem connect_resets_Signal_and_AudioParam:
  "(objs g (Node u) = Some (Signal Tone_Signal) \<and>
    objs g (Param u P_value) = Some (AudioParam v evs) \<longrightarrow>
      SignalBase_connect g this (Node u) outputNumber inputNumber =
        Tone_connect
          (g\<lparr>objs := (objs g)(Param u P_value \<mapsto> AudioParam 0 (cancelScheduledValues 0 evs))\<rparr>)
          this (Node u) outputNumber inputNumber \<and>
      objs (disconnect (state_of (SignalBase_connect g this (Node u) outputNumber inputNumber)) this)
        (Param u P_value) = Some (AudioParam 0 (cancelScheduledValues 0 evs))) \<and>
   (objs g node = Some (AudioParam v evs) \<longrightarrow>
      SignalBase_connect g this node outputNumber inputNumber =
        Tone_connect
          (g\<lparr>objs := (objs g)(node \<mapsto> AudioParam 0 (cancelScheduledValues 0 evs))\<rparr>)
          this node outputNumber inputNumber \<and>
      objs (disconnect (state_of (SignalBase_connect g this node outputNumber inputNumber)) this)
        node = Some (AudioParam 0 (cancelScheduledValues 0 evs))) \<and>
   (Tone_connect g this node outputNumber inputNumber =
      Returns (g\<lparr>edges := List.insert (the_edge this node outputNumber inputNumber) (edges g)\<rparr>)) \<and>
   ((\<forall>ev \<in> set evs. 0 \<le> fst ev) \<longrightarrow> cancelScheduledValues 0 evs = []) \<and>
   (objs g this = Some a \<and> audio_rate_port a \<and> objs g node = Some b \<and> audio_rate_port b \<longrightarrow>
      SignalBase_connect g this node outputNumber inputNumber =
        Returns (g\<lparr>edges := List.insert (the_edge this node outputNumber inputNumber) (edges g)\<rparr>))"
proof (intro conjI impI)
  assume "objs g (Node u) = Some (Signal Tone_Signal) \<and>
    objs g (Param u P_value) = Some (AudioParam v evs)"
  then show "SignalBase_connect g this (Node u) outputNumber inputNumber =
        Tone_connect
          (g\<lparr>objs := (objs g)(Param u P_value \<mapsto> AudioParam 0 (cancelScheduledValues 0 evs))\<rparr>)
          this (Node u) outputNumber inputNumber"
    and "objs (disconnect (state_of (SignalBase_connect g this (Node u) outputNumber inputNumber)) this)
        (Param u P_value) = Some (AudioParam 0 (cancelScheduledValues 0 evs))"
    by (simp_all add: SignalBase_connect_def Tone_connect_def disconnect_def)
next
  assume "objs g node = Some (AudioParam v evs)"
  then show "SignalBase_connect g this node outputNumber inputNumber =
        Tone_connect
          (g\<lparr>objs := (objs g)(node \<mapsto> AudioParam 0 (cancelScheduledValues 0 evs))\<rparr>)
          this node outputNumber inputNumber"
    and "objs (disconnect (state_of (SignalBase_connect g this node outputNumber inputNumber)) this)
        node = Some (AudioParam 0 (cancelScheduledValues 0 evs))"
    by (simp_all add: SignalBase_connect_def Tone_connect_def disconnect_def)
next
  show "Tone_connect g this node outputNumber inputNumber =
      Returns (g\<lparr>edges := List.insert (the_edge this node outputNumber inputNumber) (edges g)\<rparr>)"
    by (simp add: Tone_connect_def the_edge_def)
next
  assume "\<forall>ev \<in> set evs. 0 \<le> fst ev"
  then show "cancelScheduledValues 0 evs = []"
    by (auto simp: cancelScheduledValues_def filter_empty_conv)
next
  assume "objs g this = Some a \<and> audio_rate_port a \<and> objs g node = Some b \<and> audio_rate_port b"
  then show "SignalBase_connect g this node outputNumber inputNumber =
        Returns (g\<lparr>edges := List.insert (the_edge this node outputNumber inputNumber) (edges g)\<rparr>)"
    by (cases b) (auto simp: SignalBase_connect_def Tone_connect_def the_edge_def)
qed

text \<open>
  In a graph with a Tone.Signal and a bare parameter that each hold 5 and a change
  scheduled at time 1: connecting into either leaves it at 0 with nothing scheduled, and
  connecting one gain node to another adds the edge only.
\<close>

theorem connect_resets_Signal_and_AudioParam_witness:
  "SignalBase_connect connect_graph (Node 2) (Node 0) None None =
     Returns (connect_graph\<lparr>objs := (objs connect_graph)(Param 0 P_value \<mapsto> AudioParam 0 []),
                            edges := [(Node 2, 0, Node 0, 0)]\<rparr>) \<and>
   SignalBase_connect connect_graph (Node 2) (Param 1 P_gain) None None =
     Returns (connect_graph\<lparr>objs := (objs connect_graph)(Param 1 P_gain \<mapsto> AudioParam 0 []),
                            edges := [(Node 2, 0, Param 1 P_gain, 0)]\<rparr>) \<and>
   SignalBase_connect connect_graph (Node 2) (Node 3) (Some 0) (Some 1) =
     Returns (connect_graph\<lparr>edges := [(Node 2, 0, Node 3, 1)]\<rparr>)"
proof -
  have c: "cancelScheduledValues 0 [(1, 7)] = []"
    using connect_resets_Signal_and_AudioParam
      [of connect_graph 0 5 "[(1, 7)]" "Node 2" None None "Node 0" GainNode GainNode]
    by simp
  have o: "objs connect_graph (Node 0) = Some (Signal Tone_Signal)"
    "objs connect_graph (Param 0 P_value) = Some (AudioParam 5 [(1, 7)])"
    "objs connect_graph (Param 1 P_gain) = Some (AudioParam 5 [(1, 7)])"
    "objs connect_graph (Node 2) = Some GainNode" "objs connect_graph (Node 3) = Some GainNode"
    "edges connect_graph = []"
    by (simp_all add: connect_graph_def)
  note th = connect_resets_Signal_and_AudioParam
  have 1: "SignalBase_connect connect_graph (Node 2) (Node 0) None None =
     Returns (connect_graph\<lparr>objs := (objs connect_graph)(Param 0 P_value \<mapsto> AudioParam 0 []),
                            edges := [(Node 2, 0, Node 0, 0)]\<rparr>)"
    using th [of connect_graph 0 5 "[(1, 7)]" "Node 2" None None "Node 0"] o c
    by (simp add: the_edge_def Tone_connect_def)
  have 2: "SignalBase_connect connect_graph (Node 2) (Param 1 P_gain) None None =
     Returns (connect_graph\<lparr>objs := (objs connect_graph)(Param 1 P_gain \<mapsto> AudioParam 0 []),
                            edges := [(Node 2, 0, Param 1 P_gain, 0)]\<rparr>)"
    using th [of connect_graph 0 5 "[(1, 7)]" "Node 2" None None "Param 1 P_gain"] o c
    by (simp add: the_edge_def Tone_connect_def)
  have 3: "SignalBase_connect connect_graph (Node 2) (Node 3) (Some 0) (Some 1) =
     Returns (connect_graph\<lparr>edges := [(Node 2, 0, Node 3, 1)]\<rparr>)"
    using th [of connect_graph 0 5 "[(1, 7)]" "Node 2" "Some 0" "Some 1" "Node 3" GainNode GainNode] o
    by (simp add: the_edge_def)
  show ?thesis using 1 2 3 by blast
qed

text \<open>
  C10. The reset of connect is applied only when the destination's constructor is exactly
  Tone.Signal or the destination is an AudioParam: for every other destination, an
  instance of a class derived from Tone.Signal among them, connect returns the graph with
  the edge added and every object, the destination too, as it was.
\<close>

theorem connect_no_reset_elsewhere:
  "objs g node = Some ob \<Longrightarrow> constructor_of ob \<noteq> Some Tone_Signal \<Longrightarrow>
   \<not> instanceof_AudioParam ob \<Longrightarrow>
     SignalBase_connect g this node outputNumber inputNumber =
       Returns (g\<lparr>edges := List.insert (the_edge this node outputNumber inputNumber) (edges g)\<rparr>)"
  by (cases ob) (auto simp: SignalBase_connect_def Tone_connect_def the_edge_def)

text \<open>
  The destination an instance of a class derived from Tone.Signal, holding 5 and a
  scheduled change: the graph comes back with the one edge added and nothing else changed.
\<close>

theorem connect_no_reset_elsewhere_witness:
  "instanceof_Signal (Extended ''Derived'' Tone_Signal) \<and>
   Extended ''Derived'' Tone_Signal \<noteq> Tone_Signal \<and>
   SignalBase_connect subclass_signal_graph (Node 0) (Node 1) None None =
     Returns (subclass_signal_graph\<lparr>edges := [(Node 0, 0, Node 1, 0)]\<rparr>)"
  using connect_no_reset_elsewhere [of subclass_signal_graph "Node 1"
      "Signal (Extended ''Derived'' Tone_Signal)" "Node 0" None None]
  by (simp add: subclass_signal_graph_def the_edge_def)

subsection \<open>The comparator\<close>

lemma GreaterThan_new_state:
  "\<exists>s. GreaterThan_new b v = Returns s \<and> edges (graph s) = [(Node G_value, 0, Node G_gtz, 0)] \<and>
     objs (graph s) (Node G_value) = Some (Subtract v) \<and>
     objs (graph s) (Node G_gtz) = Some GreaterThanZero \<and>
     gt_input s = [Some (Node G_value, 0), Some (Node G_value, 1)] \<and>
     gt_output s = Some (Node G_gtz) \<and>
     gt_value s = Some G_value \<and> gt_gtz s = Some G_gtz \<and> calls s = [] \<and> base s = b"
  by (simp add: GreaterThan_new_def wiring_defs)

text \<open>
  C5. The constructor of GreaterThan wires a subtractor holding the threshold into a
  GreaterThanZero and makes the subtractor's two inputs its inputs and the
  GreaterThanZero its output. With the signal \<open>a\<close> at the first input the subtractor puts
  out \<open>a - v\<close> and the comparator 1 when \<open>a > v\<close> and 0 otherwise, so 0 when \<open>a = v\<close>; the
  GreaterThanZero stage puts out 1 when what it is fed is above 0 and 0 otherwise.
\<close>

theorem GreaterThan_compares:
  "\<exists>s. GreaterThan_new b v = Returns s \<and>
     edges (graph s) = [(Node G_value, 0, Node G_gtz, 0)] \<and>
     objs (graph s) (Node G_value) = Some (Subtract v) \<and>
     objs (graph s) (Node G_gtz) = Some GreaterThanZero \<and>
     gt_input s = [Some (Node G_value, 0), Some (Node G_value, 1)] \<and>
     gt_output s = Some (Node G_gtz) \<and>
     (\<forall>j a t.
        GreaterThan_output (2 + j) s a t = sample (if a t > v then 1 else 0) \<and>
        (a t = v \<longrightarrow> GreaterThan_output (2 + j) s a t = sample 0) \<and>
        (\<forall>E. out (1 + j) (graph s) E (Node G_value) t =
               sample (ext E (Node G_value) 0 t - (v + ext E (Node G_value) 1 t)) \<and>
             out (2 + j) (graph s) E (Node G_gtz) t =
               sample (if ext E (Node G_gtz) 0 t +
                        (ext E (Node G_value) 0 t - (v + ext E (Node G_value) 1 t)) > 0
                     then 1 else 0)))"
proof -
  obtain s where s: "GreaterThan_new b v = Returns s"
    and e: "edges (graph s) = [(Node G_value, 0, Node G_gtz, 0)]"
    and o: "objs (graph s) (Node G_value) = Some (Subtract v)"
      "objs (graph s) (Node G_gtz) = Some GreaterThanZero"
    and p: "gt_input s = [Some (Node G_value, 0), Some (Node G_value, 1)]"
      "gt_output s = Some (Node G_gtz)"
    using GreaterThan_new_state [of b v] by blast
  note [simp del] = out.simps
  have src: "sources (graph s) (Node G_value) 0 = []" "sources (graph s) (Node G_value) (Suc 0) = []"
    "sources (graph s) (Node G_gtz) 0 = [Node G_value]"
    by (simp_all add: sources_def e)
  have su: "out (Suc k) (graph s) E (Node G_value) t =
      sample (ext E (Node G_value) 0 t - (v + ext E (Node G_value) 1 t))" for k E t
    by (subst out_Suc) (simp add: o inp_def src js_sub_def)
  have gz: "out (Suc (Suc k)) (graph s) E (Node G_gtz) t =
      sample (if ext E (Node G_gtz) 0 t +
               (ext E (Node G_value) 0 t - (v + ext E (Node G_value) 1 t)) > 0 then 1 else 0)"
    for k E t
    by (subst out_Suc) (simp add: o inp_def src su)
  have go: "GreaterThan_output (2 + j) s a t = sample (if a t > v then 1 else 0)" for j a t
    using gz [of j _ t] by (simp add: GreaterThan_output_def p eval_nat_numeral)
  have "GreaterThan_output (2 + j) s a t = sample (if a t > v then 1 else 0) \<and>
        (a t = v \<longrightarrow> GreaterThan_output (2 + j) s a t = sample 0) \<and>
        (\<forall>E. out (1 + j) (graph s) E (Node G_value) t =
               sample (ext E (Node G_value) 0 t - (v + ext E (Node G_value) 1 t)) \<and>
             out (2 + j) (graph s) E (Node G_gtz) t =
               sample (if ext E (Node G_gtz) 0 t +
                        (ext E (Node G_value) 0 t - (v + ext E (Node G_value) 1 t)) > 0
                     then 1 else 0))" for j a t
    using go [of j a t] su [of j _ t] gz [of j _ t] by (simp add: eval_nat_numeral)
  then show ?thesis using s e o p by blast
qed

text \<open>Threshold 3: the input 5 gives 1, the input 3 itself gives 0, and so does 2.\<close>

theorem GreaterThan_compares_witness:
  "GreaterThan_output 2 (state_of (GreaterThan_new () 3)) (constant_signal 5) 0 = sample 1 \<and>
   GreaterThan_output 2 (state_of (GreaterThan_new () 3)) (constant_signal 3) 0 = sample 0 \<and>
   GreaterThan_output 2 (state_of (GreaterThan_new () 3)) (constant_signal 2) 0 = sample 0"
proof -
  obtain s where s: "GreaterThan_new () 3 = Returns s"
    and c: "\<forall>j a t.
        GreaterThan_output (2 + j) s a t = sample (if a t > 3 then 1 else 0) \<and>
        (a t = 3 \<longrightarrow> GreaterThan_output (2 + j) s a t = sample 0) \<and>
        (\<forall>E. out (1 + j) (graph s) E (Node G_value) t =
               sample (ext E (Node G_value) 0 t - (3 + ext E (Node G_value) 1 t)) \<and>
             out (2 + j) (graph s) E (Node G_gtz) t =
               sample (if ext E (Node G_gtz) 0 t +
                        (ext E (Node G_value) 0 t - (3 + ext E (Node G_value) 1 t)) > 0
                     then 1 else 0))"
    using GreaterThan_compares [of "()" 3] by blast
  have 1: "GreaterThan_output 2 s (constant_signal 5) 0 = sample 1"
    using c [rule_format, of 0 "constant_signal 5" 0] by (simp add: constant_signal_def)
  have 2: "GreaterThan_output 2 s (constant_signal 3) 0 = sample 0"
    using c [rule_format, of 0 "constant_signal 3" 0] by (simp add: constant_signal_def)
  have 3: "GreaterThan_output 2 s (constant_signal 2) 0 = sample 0"
    using c [rule_format, of 0 "constant_signal 2" 0] by (simp add: constant_signal_def)
  show ?thesis unfolding s state_of.simps using 1 2 3 by blast
qed

subsection \<open>The stereo delay\<close>

lemma PingPongDelay_new_state:
  assumes "base_effect g0"
  shows "\<exists>s. PingPongDelay_new g0 b d m = Returns s \<and>
     edges (graph s) =
       [(Node PP_feedbackRL, 0, Node PP_leftDelay, 0),
        (Node PP_delayTime, 0, Param PP_rightDelay P_delayTime, 0),
        (Node PP_delayTime, 0, Param PP_leftDelay P_delayTime, 0),
        (Node PP_rightDelay, 0, Node PP_effectReturnR, 0),
        (Node PP_effectSendR, 0, Node PP_rightDelay, 0),
        (Node PP_leftDelay, 0, Node PP_effectReturnL, 0),
        (Node PP_effectSendL, 0, Node PP_leftDelay, 0)]
       @ filter (\<lambda>e. fst e \<noteq> Node PP_feedbackRL) (edges g0) \<and>
     objs (graph s) =
       (objs g0)(Node PP_leftDelay \<mapsto> DelayNode (Some m), Param PP_leftDelay P_delayTime \<mapsto> AudioParam 0 [],
                 Node PP_rightDelay \<mapsto> DelayNode (Some m), Param PP_rightDelay P_delayTime \<mapsto> AudioParam 0 [],
                 Node PP_delayTime \<mapsto> Signal Tone_Signal, Param PP_delayTime P_value \<mapsto> AudioParam d []) \<and>
     pp_leftDelay s = Some PP_leftDelay \<and> pp_rightDelay s = Some PP_rightDelay \<and>
     pp_delayTime s = Some PP_delayTime \<and> calls s = [] \<and> base s = b"
proof -
  from assms have o: "objs g0 (Node PP_effectSendL) = Some GainNode"
    "objs g0 (Node PP_effectSendR) = Some GainNode" "objs g0 (Node PP_feedbackRL) = Some GainNode"
    and u: "untouched g0 PP_leftDelay" "untouched g0 PP_rightDelay" "untouched g0 PP_delayTime"
    by (simp_all add: base_effect_def)
  have n: "(Node PP_effectSendL, 0, Node PP_leftDelay, 0) \<notin> set (edges g0)"
    "(Node PP_leftDelay, 0, Node PP_effectReturnL, 0) \<notin> set (edges g0)"
    "(Node PP_effectSendR, 0, Node PP_rightDelay, 0) \<notin> set (edges g0)"
    "(Node PP_rightDelay, 0, Node PP_effectReturnR, 0) \<notin> set (edges g0)"
    "(Node PP_delayTime, 0, Param PP_leftDelay P_delayTime, 0) \<notin> set (edges g0)"
    "(Node PP_delayTime, 0, Param PP_rightDelay P_delayTime, 0) \<notin> set (edges g0)"
    "(Node PP_feedbackRL, 0, Node PP_leftDelay, 0) \<notin> set (edges g0)"
    using u by (fastforce simp: untouched_def list_all_iff)+
  show ?thesis
    using o n
    by (simp add: PingPongDelay_new_def wiring_defs fun_upd_twist)
qed


lemma StereoXFeedbackEffect_new_state:
  "\<exists>g. StereoXFeedbackEffect_new fb = Returns g \<and>
     edges g =
       [(Node PP_feedback, 0, Param PP_feedbackRL P_gain, 0),
        (Node PP_feedback, 0, Param PP_feedbackLR P_gain, 0),
        (Node PP_feedbackRL, 0, Node PP_effectSendL, 0),
        (Node PP_effectReturnR, 0, Node PP_feedbackRL, 0),
        (Node PP_feedbackLR, 0, Node PP_effectSendR, 0),
        (Node PP_effectReturnL, 0, Node PP_feedbackLR, 0)] \<and>
     objs g =
       [Node PP_effectSendL \<mapsto> GainNode, Param PP_effectSendL P_gain \<mapsto> AudioParam 1 [],
        Node PP_effectSendR \<mapsto> GainNode, Param PP_effectSendR P_gain \<mapsto> AudioParam 1 [],
        Node PP_effectReturnL \<mapsto> GainNode, Param PP_effectReturnL P_gain \<mapsto> AudioParam 1 [],
        Node PP_effectReturnR \<mapsto> GainNode, Param PP_effectReturnR P_gain \<mapsto> AudioParam 1 [],
        Node PP_feedback \<mapsto> Signal Tone_Signal, Param PP_feedback P_value \<mapsto> AudioParam fb [],
        Node PP_feedbackLR \<mapsto> GainNode, Param PP_feedbackLR P_gain \<mapsto> AudioParam 0 [],
        Node PP_feedbackRL \<mapsto> GainNode, Param PP_feedbackRL P_gain \<mapsto> AudioParam 0 []]"
  by (simp add: StereoXFeedbackEffect_new_def wiring_defs fun_upd_twist)

lemma StereoXFeedbackEffect_base_effect:
  "base_effect (state_of (StereoXFeedbackEffect_new fb))"
proof -
  obtain g where g: "StereoXFeedbackEffect_new fb = Returns g"
    and e: "edges g =
       [(Node PP_feedback, 0, Param PP_feedbackRL P_gain, 0),
        (Node PP_feedback, 0, Param PP_feedbackLR P_gain, 0),
        (Node PP_feedbackRL, 0, Node PP_effectSendL, 0),
        (Node PP_effectReturnR, 0, Node PP_feedbackRL, 0),
        (Node PP_feedbackLR, 0, Node PP_effectSendR, 0),
        (Node PP_effectReturnL, 0, Node PP_feedbackLR, 0)]"
    and o: "objs g (Node PP_effectSendL) = Some GainNode"
      "objs g (Node PP_effectSendR) = Some GainNode" "objs g (Node PP_feedbackRL) = Some GainNode"
    using StereoXFeedbackEffect_new_state [of fb] by auto
  show ?thesis
    unfolding g state_of.simps by (simp add: base_effect_def o untouched_def e)
qed

text \<open>
  C8. Whatever connections the base constructor has left: after the constructor of
  PingPongDelay the right-to-left feedback gain has one outgoing connection, into the left
  delay line, and none into the left send; the left delay line sits between the left send
  and the left return.
\<close>

theorem PingPongDelay_feedback_rerouted:
  "base_effect g0 \<Longrightarrow>
   \<exists>s. PingPongDelay_new g0 b d m = Returns s \<and>
     filter (\<lambda>e. fst e = Node PP_feedbackRL) (edges (graph s)) =
       [(Node PP_feedbackRL, 0, Node PP_leftDelay, 0)] \<and>
     (\<forall>i j. (Node PP_feedbackRL, i, Node PP_effectSendL, j) \<notin> set (edges (graph s))) \<and>
     (Node PP_effectSendL, 0, Node PP_leftDelay, 0) \<in> set (edges (graph s)) \<and>
     (Node PP_leftDelay, 0, Node PP_effectReturnL, 0) \<in> set (edges (graph s))"
proof -
  assume "base_effect g0"
  then obtain s where s: "PingPongDelay_new g0 b d m = Returns s"
    and e: "edges (graph s) =
       [(Node PP_feedbackRL, 0, Node PP_leftDelay, 0),
        (Node PP_delayTime, 0, Param PP_rightDelay P_delayTime, 0),
        (Node PP_delayTime, 0, Param PP_leftDelay P_delayTime, 0),
        (Node PP_rightDelay, 0, Node PP_effectReturnR, 0),
        (Node PP_effectSendR, 0, Node PP_rightDelay, 0),
        (Node PP_leftDelay, 0, Node PP_effectReturnL, 0),
        (Node PP_effectSendL, 0, Node PP_leftDelay, 0)]
       @ filter (\<lambda>e. fst e \<noteq> Node PP_feedbackRL) (edges g0)"
    using PingPongDelay_new_state [of g0 b d m] by blast
  have "filter (\<lambda>e. fst e = Node PP_feedbackRL) (edges (graph s)) =
       [(Node PP_feedbackRL, 0, Node PP_leftDelay, 0)]"
    by (simp add: e filter_empty_conv)
  moreover have "\<forall>i j. (Node PP_feedbackRL, i, Node PP_effectSendL, j) \<notin> set (edges (graph s))"
    by (auto simp: e)
  moreover have "(Node PP_effectSendL, 0, Node PP_leftDelay, 0) \<in> set (edges (graph s))"
    "(Node PP_leftDelay, 0, Node PP_effectReturnL, 0) \<in> set (edges (graph s))"
    by (simp_all add: e)
  ultimately show ?thesis using s by blast
qed

text \<open>
  On the base as the spec describes it, where the right-to-left feedback gain feeds the
  left send: after the constructor it feeds the left delay line only.
\<close>

theorem PingPongDelay_feedback_rerouted_witness:
  "(Node PP_feedbackRL, 0, Node PP_effectSendL, 0)
     \<in> set (edges (state_of (StereoXFeedbackEffect_new (1 / 2)))) \<and>
   thrown (PingPongDelay_new (state_of (StereoXFeedbackEffect_new (1 / 2))) () (1 / 4) 1) = None \<and>
   filter (\<lambda>e. fst e = Node PP_feedbackRL)
     (edges (graph (state_of
        (PingPongDelay_new (state_of (StereoXFeedbackEffect_new (1 / 2))) () (1 / 4) 1)))) =
     [(Node PP_feedbackRL, 0, Node PP_leftDelay, 0)]"
proof -
  let ?g0 = "state_of (StereoXFeedbackEffect_new (1 / 2))"
  have 1: "(Node PP_feedbackRL, 0, Node PP_effectSendL, 0) \<in> set (edges ?g0)"
    using StereoXFeedbackEffect_new_state [of "1 / 2"] by auto
  obtain s where s: "PingPongDelay_new ?g0 () (1 / 4) 1 = Returns s"
    and f: "filter (\<lambda>e. fst e = Node PP_feedbackRL) (edges (graph s)) =
       [(Node PP_feedbackRL, 0, Node PP_leftDelay, 0)]"
    using PingPongDelay_feedback_rerouted [OF StereoXFeedbackEffect_base_effect, of "1 / 2" "()" "1 / 4" 1]
    by blast
  show ?thesis
    unfolding s state_of.simps thrown.simps using 1 f by blast
qed


lemma set_delayTimes_state:
  "pp_delayTime s = Some PP_delayTime \<Longrightarrow>
   objs (graph s) (Param PP_delayTime P_value) = Some (AudioParam d evs) \<Longrightarrow>
   \<exists>s'. set_delayTimes vs s = Returns s' \<and> edges (graph s') = edges (graph s) \<and>
     objs (graph s') = (objs (graph s))(Param PP_delayTime P_value \<mapsto> AudioParam (last (d # vs)) evs) \<and>
     pp_delayTime s' = Some PP_delayTime \<and> pp_leftDelay s' = pp_leftDelay s \<and>
     pp_rightDelay s' = pp_rightDelay s \<and> calls s' = calls s"
proof (induction vs arbitrary: s d)
  case Nil
  then show ?case by (auto simp: fun_upd_idem)
next
  case (Cons v vs)
  let ?s1 = "s\<lparr>graph := (graph s)\<lparr>objs := (objs (graph s))(Param PP_delayTime P_value \<mapsto> AudioParam v evs)\<rparr>\<rparr>"
  have 1: "PingPongDelay_set_delayTime v s = Returns ?s1"
    using Cons.prems by (simp add: PingPongDelay_set_delayTime_def on_graph_def set_value_def)
  have "\<exists>s'. set_delayTimes vs ?s1 = Returns s' \<and> edges (graph s') = edges (graph ?s1) \<and>
     objs (graph s') = (objs (graph ?s1))(Param PP_delayTime P_value \<mapsto> AudioParam (last (v # vs)) evs) \<and>
     pp_delayTime s' = Some PP_delayTime \<and> pp_leftDelay s' = pp_leftDelay ?s1 \<and>
     pp_rightDelay s' = pp_rightDelay ?s1 \<and> calls s' = calls ?s1"
    by (rule Cons.IH) (simp_all add: Cons.prems)
  then show ?case
    by (auto simp: 1)
qed

lemma PingPongDelay_delay_times:
  assumes u: "untouched g0 PP_leftDelay" "untouched g0 PP_rightDelay" "untouched g0 PP_delayTime"
    and e: "edges g =
       [(Node PP_feedbackRL, 0, Node PP_leftDelay, 0),
        (Node PP_delayTime, 0, Param PP_rightDelay P_delayTime, 0),
        (Node PP_delayTime, 0, Param PP_leftDelay P_delayTime, 0),
        (Node PP_rightDelay, 0, Node PP_effectReturnR, 0),
        (Node PP_effectSendR, 0, Node PP_rightDelay, 0),
        (Node PP_leftDelay, 0, Node PP_effectReturnL, 0),
        (Node PP_effectSendL, 0, Node PP_leftDelay, 0)]
       @ filter (\<lambda>e. fst e \<noteq> Node PP_feedbackRL) (edges g0)"
    and o: "objs g (Param PP_leftDelay P_delayTime) = Some (AudioParam 0 [])"
      "objs g (Param PP_rightDelay P_delayTime) = Some (AudioParam 0 [])"
      "objs g (Node PP_delayTime) = Some (Signal Tone_Signal)"
      "objs g (Param PP_delayTime P_value) = Some (AudioParam v [])"
  shows "sources g (Param PP_leftDelay P_delayTime) 0 = [Node PP_delayTime]"
    and "sources g (Param PP_rightDelay P_delayTime) 0 = [Node PP_delayTime]"
    and "out (3 + j) g (PingPongDelay_env xL xR) (Param PP_leftDelay P_delayTime) t = sample v"
    and "out (3 + j) g (PingPongDelay_env xL xR) (Param PP_rightDelay P_delayTime) t = sample v"
proof -
  let ?E = "PingPongDelay_env xL xR"
  note [simp del] = out.simps
  have f: "fst (snd (snd x)) \<noteq> Param PP_leftDelay p" "fst (snd (snd x)) \<noteq> Param PP_rightDelay p"
    "fst (snd (snd x)) \<noteq> Param PP_delayTime p" "fst (snd (snd x)) \<noteq> Node PP_delayTime"
    if "x \<in> set (edges g0)" for x p
    using u that by (auto simp: untouched_def list_all_iff)
  show src: "sources g (Param PP_leftDelay P_delayTime) 0 = [Node PP_delayTime]"
    "sources g (Param PP_rightDelay P_delayTime) 0 = [Node PP_delayTime]"
    by (simp_all add: sources_def e f filter_empty_conv)
  have src0: "sources g (Node PP_delayTime) 0 = []" "sources g (Param PP_delayTime P_value) 0 = []"
    by (simp_all add: sources_def e f filter_empty_conv)
  have ext0: "ext ?E (Param u p) q t' = 0" "ext ?E (Node PP_delayTime) q t' = 0" for u p q t'
    by (simp_all add: PingPongDelay_env_def)
  have pv: "out (Suc k) g ?E (Param PP_delayTime P_value) t' = sample v" for k t'
    by (subst out_Suc) (simp add: o inp_def src0 ext0)
  have dt: "out (Suc (Suc k)) g ?E (Node PP_delayTime) t' = sample v" for k t'
    by (subst out_Suc) (simp add: o inp_def src0 ext0 pv)
  have l: "out (Suc (Suc (Suc k))) g ?E (Param PP_leftDelay P_delayTime) t' = sample v" for k t'
    by (subst out_Suc) (simp add: o inp_def src ext0 dt)
  have r: "out (Suc (Suc (Suc k))) g ?E (Param PP_rightDelay P_delayTime) t' = sample v" for k t'
    by (subst out_Suc) (simp add: o inp_def src ext0 dt)
  show "out (3 + j) g ?E (Param PP_leftDelay P_delayTime) t = sample v"
    using l [of j t] by (simp add: eval_nat_numeral)
  show "out (3 + j) g ?E (Param PP_rightDelay P_delayTime) t = sample v"
    using r [of j t] by (simp add: eval_nat_numeral)
qed

text \<open>
  C7. After the constructor of PingPongDelay, and after any number of changes of the delay
  time that follow, the one delayTime signal is the only source wired to the left delay
  line's time parameter and the only source wired to the right one's, and both parameters
  carry the value the signal was given last: the two delay times are equal.
\<close>

theorem PingPongDelay_shared_delayTime:
  "base_effect g0 \<Longrightarrow>
   \<exists>s. PingPongDelay_new g0 b d m = Returns s \<and> pp_delayTime s = Some PP_delayTime \<and>
     (\<forall>vs. \<exists>s'. set_delayTimes vs s = Returns s' \<and>
        sources (graph s') (Param PP_leftDelay P_delayTime) 0 = [Node PP_delayTime] \<and>
        sources (graph s') (Param PP_rightDelay P_delayTime) 0 = [Node PP_delayTime] \<and>
        (\<forall>j xL xR t.
           out (3 + j) (graph s') (PingPongDelay_env xL xR) (Param PP_leftDelay P_delayTime) t =
             sample (last (d # vs)) \<and>
           out (3 + j) (graph s') (PingPongDelay_env xL xR) (Param PP_rightDelay P_delayTime) t =
             sample (last (d # vs))))"
proof -
  assume b: "base_effect g0"
  then obtain s where s: "PingPongDelay_new g0 b d m = Returns s"
    and e: "edges (graph s) =
       [(Node PP_feedbackRL, 0, Node PP_leftDelay, 0),
        (Node PP_delayTime, 0, Param PP_rightDelay P_delayTime, 0),
        (Node PP_delayTime, 0, Param PP_leftDelay P_delayTime, 0),
        (Node PP_rightDelay, 0, Node PP_effectReturnR, 0),
        (Node PP_effectSendR, 0, Node PP_rightDelay, 0),
        (Node PP_leftDelay, 0, Node PP_effectReturnL, 0),
        (Node PP_effectSendL, 0, Node PP_leftDelay, 0)]
       @ filter (\<lambda>e. fst e \<noteq> Node PP_feedbackRL) (edges g0)"
    and o: "objs (graph s) =
       (objs g0)(Node PP_leftDelay \<mapsto> DelayNode (Some m), Param PP_leftDelay P_delayTime \<mapsto> AudioParam 0 [],
                 Node PP_rightDelay \<mapsto> DelayNode (Some m), Param PP_rightDelay P_delayTime \<mapsto> AudioParam 0 [],
                 Node PP_delayTime \<mapsto> Signal Tone_Signal, Param PP_delayTime P_value \<mapsto> AudioParam d [])"
    and f: "pp_delayTime s = Some PP_delayTime"
    using PingPongDelay_new_state [of g0 b d m] by blast
  from b have u: "untouched g0 PP_leftDelay" "untouched g0 PP_rightDelay" "untouched g0 PP_delayTime"
    by (simp_all add: base_effect_def)
  have "\<exists>s'. set_delayTimes vs s = Returns s' \<and>
        sources (graph s') (Param PP_leftDelay P_delayTime) 0 = [Node PP_delayTime] \<and>
        sources (graph s') (Param PP_rightDelay P_delayTime) 0 = [Node PP_delayTime] \<and>
        (\<forall>j xL xR t.
           out (3 + j) (graph s') (PingPongDelay_env xL xR) (Param PP_leftDelay P_delayTime) t =
             sample (last (d # vs)) \<and>
           out (3 + j) (graph s') (PingPongDelay_env xL xR) (Param PP_rightDelay P_delayTime) t =
             sample (last (d # vs)))" for vs
  proof -
    have "objs (graph s) (Param PP_delayTime P_value) = Some (AudioParam d [])"
      by (simp add: o)
    from set_delayTimes_state [OF f this, of vs]
    obtain s' where s': "set_delayTimes vs s = Returns s'"
      and e': "edges (graph s') = edges (graph s)"
      and o': "objs (graph s') =
         (objs (graph s))(Param PP_delayTime P_value \<mapsto> AudioParam (last (d # vs)) [])"
      by blast
    have o'': "objs (graph s') (Param PP_leftDelay P_delayTime) = Some (AudioParam 0 [])"
      "objs (graph s') (Param PP_rightDelay P_delayTime) = Some (AudioParam 0 [])"
      "objs (graph s') (Node PP_delayTime) = Some (Signal Tone_Signal)"
      "objs (graph s') (Param PP_delayTime P_value) = Some (AudioParam (last (d # vs)) [])"
      by (simp_all add: o' o)
    note dt = PingPongDelay_delay_times [OF u e' [unfolded e] o'']
    show ?thesis using s' dt by blast
  qed
  then show ?thesis using s f by blast
qed

text \<open>
  On the base as the spec describes it, built with delay time 1/4 and then set to 1/8 and
  to 1/2: both delay lines' time parameters carry 1/2.
\<close>

theorem PingPongDelay_shared_delayTime_witness:
  "thrown (set_delayTimes [1 / 8, 1 / 2]
     (state_of (PingPongDelay_new (state_of (StereoXFeedbackEffect_new (1 / 2))) () (1 / 4) 1))) = None \<and>
   out 3 (graph (state_of (set_delayTimes [1 / 8, 1 / 2]
        (state_of (PingPongDelay_new (state_of (StereoXFeedbackEffect_new (1 / 2))) () (1 / 4) 1)))))
     (PingPongDelay_env (constant_signal 1) (constant_signal 0)) (Param PP_leftDelay P_delayTime) 0 =
     sample (1 / 2) \<and>
   out 3 (graph (state_of (set_delayTimes [1 / 8, 1 / 2]
        (state_of (PingPongDelay_new (state_of (StereoXFeedbackEffect_new (1 / 2))) () (1 / 4) 1)))))
     (PingPongDelay_env (constant_signal 1) (constant_signal 0)) (Param PP_rightDelay P_delayTime) 0 =
     sample (1 / 2)"
proof -
  let ?g0 = "state_of (StereoXFeedbackEffect_new (1 / 2))"
  obtain s where s: "PingPongDelay_new ?g0 () (1 / 4) 1 = Returns s"
    and a: "\<forall>vs. \<exists>s'. set_delayTimes vs s = Returns s' \<and>
        sources (graph s') (Param PP_leftDelay P_delayTime) 0 = [Node PP_delayTime] \<and>
        sources (graph s') (Param PP_rightDelay P_delayTime) 0 = [Node PP_delayTime] \<and>
        (\<forall>j xL xR t.
           out (3 + j) (graph s') (PingPongDelay_env xL xR) (Param PP_leftDelay P_delayTime) t =
             sample (last (1 / 4 # vs)) \<and>
           out (3 + j) (graph s') (PingPongDelay_env xL xR) (Param PP_rightDelay P_delayTime) t =
             sample (last (1 / 4 # vs)))"
    using PingPongDelay_shared_delayTime [OF StereoXFeedbackEffect_base_effect, of "1 / 2" "()" "1 / 4" 1]
    by blast
  from a [rule_format, of "[1 / 8, 1 / 2]"]
  obtain s' where s': "set_delayTimes [1 / 8, 1 / 2] s = Returns s'"
    and v: "\<forall>j xL xR t.
           out (3 + j) (graph s') (PingPongDelay_env xL xR) (Param PP_leftDelay P_delayTime) t =
             sample (last [1 / 4, 1 / 8, 1 / 2]) \<and>
           out (3 + j) (graph s') (PingPongDelay_env xL xR) (Param PP_rightDelay P_delayTime) t =
             sample (last [1 / 4, 1 / 8, 1 / 2])"
    by blast
  from v [rule_format, of 0 "constant_signal 1" "constant_signal 0" 0]
  show ?thesis
    unfolding s state_of.simps s' thrown.simps by simp
qed

subsection \<open>Disposal\<close>

lemma Follower_dispose_Returns:
  "Follower_dispose D s = Returns s1 \<Longrightarrow> fo_filter s1 = None"
  by (auto simp: Follower_dispose_def base_call_def field_call_def
      split: outcome.splits option.splits)

lemma GreaterThan_dispose_Returns:
  "GreaterThan_dispose D s = Returns s1 \<Longrightarrow> gt_value s1 = None"
  by (auto simp: GreaterThan_dispose_def base_call_def field_call_def
      split: outcome.splits option.splits)

lemma PingPongDelay_dispose_Returns:
  "PingPongDelay_dispose D s = Returns s1 \<Longrightarrow> pp_leftDelay s1 = None"
  by (auto simp: PingPongDelay_dispose_def base_call_def field_call_def
      split: outcome.splits option.splits)

lemma Follower_dispose_live:
  "fo_abs s = Some a \<Longrightarrow> fo_filter s = Some f \<Longrightarrow> fo_frequencyValues s = Some v \<Longrightarrow>
   fo_sub s = Some su \<Longrightarrow> fo_delay s = Some d \<Longrightarrow> fo_mult s = Some m \<Longrightarrow>
   \<exists>s1. Follower_dispose Returns s = Returns s1 \<and>
     calls s1 = calls s @ [(f, Disconnect), (v, Disconnect), (d, Disconnect), (su, Disconnect),
                           (a, Dispose), (m, Dispose)]"
  by (simp add: Follower_dispose_def base_call_def field_call_def)

lemma GreaterThan_dispose_live:
  "gt_value s = Some a \<Longrightarrow> gt_gtz s = Some z \<Longrightarrow>
   \<exists>s1. GreaterThan_dispose Returns s = Returns s1 \<and> calls s1 = calls s @ [(a, Dispose), (z, Dispose)]"
  by (simp add: GreaterThan_dispose_def base_call_def field_call_def)

lemma PingPongDelay_dispose_live:
  "pp_leftDelay s = Some l \<Longrightarrow> pp_rightDelay s = Some r \<Longrightarrow> pp_delayTime s = Some d \<Longrightarrow>
   \<exists>s1. PingPongDelay_dispose Returns s = Returns s1 \<and>
     calls s1 = calls s @ [(l, Disconnect), (r, Disconnect), (d, Dispose)]"
  by (simp add: PingPongDelay_dispose_def base_call_def field_call_def)

text \<open>
  C2, as stated, has the second dispose not raise. A follower is built and disposed of,
  which returns; the second dispose throws a TypeError.
\<close>

theorem dispose_twice_counterexample:
  "thrown (and_then (Follower_new example_tone () (Num (1 / 20)) (Num (1 / 2))) (Follower_dispose Returns)) = None \<and>
   thrown (and_then (and_then (Follower_new example_tone () (Num (1 / 20)) (Num (1 / 2)))
       (Follower_dispose Returns)) (Follower_dispose Returns)) = Some TypeError"
proof -
  obtain s where s: "Follower_new example_tone () (Num (1 / 20)) (Num (1 / 2)) = Returns s"
    and f: "fo_abs s = Some F_abs" "fo_filter s = Some F_filter"
     "fo_frequencyValues s = Some F_frequencyValues" "fo_sub s = Some F_sub"
     "fo_delay s = Some F_delay" "fo_mult s = Some F_mult"
    using Follower_new_graph [of example_tone "()" "Num (1 / 20)" "Num (1 / 2)"] by blast
  obtain s1 where s1: "Follower_dispose Returns s = Returns s1"
    using Follower_dispose_live [OF f] by blast
  have "fo_filter s1 = None"
    using Follower_dispose_Returns [OF s1] .
  then have "thrown (Follower_dispose Returns s1) = Some TypeError"
    by (simp add: Follower_dispose_def base_call_def field_call_def)
  then show ?thesis by (simp add: s s1)
qed

text \<open>
  C2, as the code has it. For each of Follower, GreaterThan and PingPongDelay: after a
  dispose that returned, a second dispose throws. It throws what the base class's dispose
  throws, if that throws; otherwise it throws a TypeError at its first access to a field
  that the first dispose set to null. Either way it makes no disconnect or dispose call on
  an internal unit and leaves the graph as it was.
\<close>

theorem dispose_twice_throws:
  "(Follower_dispose Df f = Returns f1 \<longrightarrow>
      thrown (Follower_dispose Df f1) \<noteq> None \<and>
      (thrown (Df (base f1)) = None \<longrightarrow> thrown (Follower_dispose Df f1) = Some TypeError) \<and>
      calls (state_of (Follower_dispose Df f1)) = calls f1 \<and>
      graph (state_of (Follower_dispose Df f1)) = graph f1) \<and>
   (GreaterThan_dispose Dg g = Returns g1 \<longrightarrow>
      thrown (GreaterThan_dispose Dg g1) \<noteq> None \<and>
      (thrown (Dg (base g1)) = None \<longrightarrow> thrown (GreaterThan_dispose Dg g1) = Some TypeError) \<and>
      calls (state_of (GreaterThan_dispose Dg g1)) = calls g1 \<and>
      graph (state_of (GreaterThan_dispose Dg g1)) = graph g1) \<and>
   (PingPongDelay_dispose Dp p = Returns p1 \<longrightarrow>
      thrown (PingPongDelay_dispose Dp p1) \<noteq> None \<and>
      (thrown (Dp (base p1)) = None \<longrightarrow> thrown (PingPongDelay_dispose Dp p1) = Some TypeError) \<and>
      calls (state_of (PingPongDelay_dispose Dp p1)) = calls p1 \<and>
      graph (state_of (PingPongDelay_dispose Dp p1)) = graph p1)"
proof (intro conjI impI)
  assume "Follower_dispose Df f = Returns f1"
  then have n: "fo_filter f1 = None" by (rule Follower_dispose_Returns)
  show "thrown (Follower_dispose Df f1) \<noteq> None"
    "calls (state_of (Follower_dispose Df f1)) = calls f1"
    "graph (state_of (Follower_dispose Df f1)) = graph f1"
    using n by (cases "Df (base f1)";
      simp add: Follower_dispose_def base_call_def field_call_def)+
  assume "thrown (Df (base f1)) = None"
  then show "thrown (Follower_dispose Df f1) = Some TypeError"
    using n by (cases "Df (base f1)";
      simp add: Follower_dispose_def base_call_def field_call_def)
next
  assume "GreaterThan_dispose Dg g = Returns g1"
  then have n: "gt_value g1 = None" by (rule GreaterThan_dispose_Returns)
  show "thrown (GreaterThan_dispose Dg g1) \<noteq> None"
    "calls (state_of (GreaterThan_dispose Dg g1)) = calls g1"
    "graph (state_of (GreaterThan_dispose Dg g1)) = graph g1"
    using n by (cases "Dg (base g1)";
      simp add: GreaterThan_dispose_def base_call_def field_call_def)+
  assume "thrown (Dg (base g1)) = None"
  then show "thrown (GreaterThan_dispose Dg g1) = Some TypeError"
    using n by (cases "Dg (base g1)";
      simp add: GreaterThan_dispose_def base_call_def field_call_def)
next
  assume "PingPongDelay_dispose Dp p = Returns p1"
  then have n: "pp_leftDelay p1 = None" by (rule PingPongDelay_dispose_Returns)
  show "thrown (PingPongDelay_dispose Dp p1) \<noteq> None"
    "calls (state_of (PingPongDelay_dispose Dp p1)) = calls p1"
    "graph (state_of (PingPongDelay_dispose Dp p1)) = graph p1"
    using n by (cases "Dp (base p1)";
      simp add: PingPongDelay_dispose_def base_call_def field_call_def)+
  assume "thrown (Dp (base p1)) = None"
  then show "thrown (PingPongDelay_dispose Dp p1) = Some TypeError"
    using n by (cases "Dp (base p1)";
      simp add: PingPongDelay_dispose_def base_call_def field_call_def)
qed


text \<open>
  A follower, a comparator and a stereo delay (on the base as the spec describes it), each
  built and disposed of with a base dispose that returns: the first dispose returns after
  its calls on the internal units, the second throws a TypeError and adds no call.
\<close>

theorem dispose_twice_throws_witness:
  "thrown (Follower_dispose Returns (state_of (Follower_new example_tone () (Num (1 / 20)) (Num (1 / 2))))) = None \<and>
   thrown (Follower_dispose Returns (state_of (Follower_dispose Returns
      (state_of (Follower_new example_tone () (Num (1 / 20)) (Num (1 / 2))))))) = Some TypeError \<and>
   calls (state_of (Follower_dispose Returns (state_of (Follower_dispose Returns
      (state_of (Follower_new example_tone () (Num (1 / 20)) (Num (1 / 2)))))))) =
     [(F_filter, Disconnect), (F_frequencyValues, Disconnect), (F_delay, Disconnect),
      (F_sub, Disconnect), (F_abs, Dispose), (F_mult, Dispose)] \<and>
   thrown (GreaterThan_dispose Returns (state_of (GreaterThan_new () 3))) = None \<and>
   thrown (GreaterThan_dispose Returns (state_of (GreaterThan_dispose Returns
      (state_of (GreaterThan_new () 3))))) = Some TypeError \<and>
   calls (state_of (GreaterThan_dispose Returns (state_of (GreaterThan_dispose Returns
      (state_of (GreaterThan_new () 3)))))) = [(G_value, Dispose), (G_gtz, Dispose)] \<and>
   thrown (PingPongDelay_dispose Returns
      (state_of (PingPongDelay_new (state_of (StereoXFeedbackEffect_new (1 / 2))) () (1 / 4) 1))) = None \<and>
   thrown (PingPongDelay_dispose Returns (state_of (PingPongDelay_dispose Returns
      (state_of (PingPongDelay_new (state_of (StereoXFeedbackEffect_new (1 / 2))) () (1 / 4) 1))))) =
     Some TypeError \<and>
   calls (state_of (PingPongDelay_dispose Returns (state_of (PingPongDelay_dispose Returns
      (state_of (PingPongDelay_new (state_of (StereoXFeedbackEffect_new (1 / 2))) () (1 / 4) 1)))))) =
     [(PP_leftDelay, Disconnect), (PP_rightDelay, Disconnect), (PP_delayTime, Dispose)]"
proof -
  obtain f where f: "Follower_new example_tone () (Num (1 / 20)) (Num (1 / 2)) = Returns f"
    and ff: "fo_abs f = Some F_abs" "fo_filter f = Some F_filter"
     "fo_frequencyValues f = Some F_frequencyValues" "fo_sub f = Some F_sub"
     "fo_delay f = Some F_delay" "fo_mult f = Some F_mult" and fc: "calls f = []"
    using Follower_new_graph [of example_tone "()" "Num (1 / 20)" "Num (1 / 2)"] by blast
  obtain f1 where f1: "Follower_dispose Returns f = Returns f1"
    and f1c: "calls f1 = calls f @ [(F_filter, Disconnect), (F_frequencyValues, Disconnect),
       (F_delay, Disconnect), (F_sub, Disconnect), (F_abs, Dispose), (F_mult, Dispose)]"
    using Follower_dispose_live [OF ff] by blast
  obtain g where g: "GreaterThan_new () 3 = Returns g"
    and gf: "gt_value g = Some G_value" "gt_gtz g = Some G_gtz" and gc: "calls g = []"
    using GreaterThan_new_state [of "()" 3] by blast
  obtain g1 where g1: "GreaterThan_dispose Returns g = Returns g1"
    and g1c: "calls g1 = calls g @ [(G_value, Dispose), (G_gtz, Dispose)]"
    using GreaterThan_dispose_live [OF gf] by blast
  let ?g0 = "state_of (StereoXFeedbackEffect_new (1 / 2))"
  obtain p where p: "PingPongDelay_new ?g0 () (1 / 4) 1 = Returns p"
    and pf: "pp_leftDelay p = Some PP_leftDelay" "pp_rightDelay p = Some PP_rightDelay"
      "pp_delayTime p = Some PP_delayTime" and pc: "calls p = []"
    using PingPongDelay_new_state [OF StereoXFeedbackEffect_base_effect, of "1 / 2" "()" "1 / 4" 1]
    by blast
  obtain p1 where p1: "PingPongDelay_dispose Returns p = Returns p1"
    and p1c: "calls p1 = calls p @ [(PP_leftDelay, Disconnect), (PP_rightDelay, Disconnect),
       (PP_delayTime, Dispose)]"
    using PingPongDelay_dispose_live [OF pf] by blast
  have b: "thrown (Returns (base f1)) = None" "thrown (Returns (base g1)) = None"
    "thrown (Returns (base p1)) = None"
    by simp_all
  note th = dispose_twice_throws [of Returns f f1 Returns g g1 Returns p p1]
  have 1: "thrown (Follower_dispose Returns f1) = Some TypeError"
    "calls (state_of (Follower_dispose Returns f1)) = calls f1"
    using th f1 b by blast+
  have 2: "thrown (GreaterThan_dispose Returns g1) = Some TypeError"
    "calls (state_of (GreaterThan_dispose Returns g1)) = calls g1"
    using th g1 b by blast+
  have 3: "thrown (PingPongDelay_dispose Returns p1) = Some TypeError"
    "calls (state_of (PingPongDelay_dispose Returns p1)) = calls p1"
    using th p1 b by blast+
  show ?thesis
    unfolding f g p state_of.simps f1 g1 p1 thrown.simps
    using 1 2 3 f1c g1c p1c fc gc pc by simp
qed

subsection \<open>The echo pattern\<close>






subsection \<open>Signals that settle\<close>













subsection \<open>The impulse response of the stereo delay\<close>











end
